theory Spec2Isabelle
  imports
    Complex_Main
    "HOL-Library.Char_ord"
    "HOL-Library.List_Lexorder"
    "HOL-Library.Log_Nat"
begin

section \<open>Data model\<close>

text \<open>
  The program of \<^verbatim>\<open>run.py\<close> is a batch ETL over a pandas DataFrame of patient records.
  A DataFrame is modelled by the list of its column names and the list of its rows; a row
  is a record of the four columns the transform stage reads, the derived column
  \<^verbatim>\<open>age\<close> and the remaining (passthrough) columns. A missing cell (\<^verbatim>\<open>NaN\<close>, \<^verbatim>\<open>NaT\<close>,
  \<^verbatim>\<open>None\<close>) is \<open>None\<close>. The fields of a row whose column is not listed in \<open>columns\<close>
  carry no meaning: every access goes through the column check the source performs.

  Numbers: \<^verbatim>\<open>billing_amount\<close> is a float64 column. Its values are of a type \<open>'f\<close> that the
  model does not look into, and the float64 operations of pandas and numpy on them (mean,
  sum, rounding) are functions the world supplies, so that no theorem depends on how
  floating point rounds, in which order a sum is taken, or what becomes of an overflow.
  One world with IEEE binary64 arithmetic is defined below, for the examples. Timestamps
  are nanoseconds since the epoch, in the range of int64 as pandas stores them.
\<close>

type_synonym timestamp = int

record ('f, 'd, 'a, 'x) row =
  patient_id :: "int option"
  department :: "string option"
  dob :: 'd
  billing_amount :: "'f option"
  age :: 'a
  other :: 'x

record 'r frame =
  columns :: "string list"
  rows :: "'r list"

text \<open>The raw dataset has text (or missing) dates of birth and no age column yet.\<close>

type_synonym ('f, 'x) raw_row = "('f, string option, unit, 'x) row"
type_synonym ('f, 'x) clean_row = "('f, timestamp option, int, 'x) row"

record 'f summary_row =
  department_key :: string
  number_of_patients :: nat
  total_revenue :: "'f option"
  average_billing :: "'f option"

section \<open>Effects: console, clock, files, network, document store\<close>

text \<open>
  A call of the program yields the events it caused, in order, and either the exception
  that ended it or its value. The exceptions are those below \<^verbatim>\<open>Exception\<close> in Python's
  hierarchy, which is what the \<^verbatim>\<open>except\<close> clauses of \<^verbatim>\<open>extract\<close> catch.
\<close>

datatype exn =
    KeyError string
  | IndexError
  | TypeError
  | OverflowError
  | FileNotFoundError string
  | OtherException string

datatype event =
    Print string
  | DatetimeNow
  | Makedirs string
  | ReadCsv string
  | RequestsGet string
  | RaiseForStatus
  | ResponseJson
  | BuildDataFrame
  | ToCsv string
  | MongoClient string
  | DeleteMany string string
  | InsertMany string string

type_synonym 'a io = "event list \<times> (exn + 'a)"

definition return_io :: "'a \<Rightarrow> 'a io" where
  "return_io a = ([], Inr a)"

definition raise_io :: "exn \<Rightarrow> 'a io" where
  "raise_io e = ([], Inl e)"

definition bind_io :: "'a io \<Rightarrow> ('a \<Rightarrow> 'b io) \<Rightarrow> 'b io" where
  "bind_io m f =
     (case m of
        (tr, Inl e) \<Rightarrow> (tr, Inl e)
      | (tr, Inr a) \<Rightarrow> (case f a of (tr', r) \<Rightarrow> (tr @ tr', r)))"

definition then_io :: "'a io \<Rightarrow> 'b io \<Rightarrow> 'b io" where
  "then_io m n = bind_io m (\<lambda>_. n)"

definition try_except :: "'a io \<Rightarrow> (exn \<Rightarrow> 'a io) \<Rightarrow> 'a io" where
  "try_except m h =
     (case m of
        (tr, Inl e) \<Rightarrow> (case h e of (tr', r) \<Rightarrow> (tr @ tr', r))
      | (tr, Inr a) \<Rightarrow> (tr, Inr a))"

definition print :: "string \<Rightarrow> unit io" where
  "print s = ([Print s], Inr ())"

definition exn_str :: "exn \<Rightarrow> string" where
  "exn_str e =
     (case e of
        KeyError k \<Rightarrow> [CHR 0x27] @ k @ [CHR 0x27]
      | IndexError \<Rightarrow> ''list index out of range''
      | TypeError \<Rightarrow> ''unsupported operand or wrong number of arguments''
      | OverflowError \<Rightarrow> ''Overflow in int64 addition''
      | FileNotFoundError m \<Rightarrow> m
      | OtherException m \<Rightarrow> m)"

text \<open>
  \<^verbatim>\<open>pd.to_datetime(col, errors='coerce')\<close> is library code: the parser is a parameter. It
  sees the whole column (pandas may infer the format from it) and the cell; a missing cell
  is \<^verbatim>\<open>NaT\<close> whatever the parser, and an unparseable one is \<^verbatim>\<open>NaT\<close> when the parser says
  \<open>None\<close>.
\<close>

type_synonym parser = "string option list \<Rightarrow> string \<Rightarrow> timestamp option"

text \<open>
  The world outside the program.
  \<^item> \<open>clock w k\<close> is what the \<open>k\<close>-th reading of the wall clock in a call returns; successive
    readings may differ.
  \<^item> \<open>parse_datetime\<close> is the date parser, \<open>tz_aware\<close> tells whether the parsed column is
    timezone-aware.
  \<^item> \<open>np_mean\<close> is \<^verbatim>\<open>Series.mean()\<close>, \<open>group_sum\<close> and \<open>group_mean\<close> are the grouped
    aggregations, on a float64 column with at least one value present; \<open>np_round\<close> is
    \<^verbatim>\<open>round(2)\<close> on one value; \<open>zero\<close> is \<^verbatim>\<open>0.0\<close>. A result \<open>None\<close> is \<^verbatim>\<open>NaN\<close>.
  \<^item> The remaining fields say what each read returns and which of the other external
    calls fail. \<open>'r\<close> is an HTTP response, \<open>'j\<close> a decoded JSON value, \<open>'x\<close> the passthrough
    columns of a patient record.
  Apart from the clock the world is fixed during a run: what a call returns does not
  depend on the events before it.
\<close>

record ('f, 'x, 'r, 'j) env =
  clock :: "nat \<Rightarrow> timestamp"
  parse_datetime :: parser
  tz_aware :: "string option list \<Rightarrow> bool"
  np_mean :: "'f option list \<Rightarrow> 'f option"
  np_round :: "'f \<Rightarrow> 'f"
  group_sum :: "'f option list \<Rightarrow> 'f option"
  group_mean :: "'f option list \<Rightarrow> 'f option"
  zero :: 'f
  read_csv :: "string \<Rightarrow> exn + ('f, 'x) raw_row frame"
  requests_get :: "string \<Rightarrow> exn + 'r"
  raise_for_status :: "'r \<Rightarrow> exn + unit"
  response_json :: "'r \<Rightarrow> exn + 'j"
  data_frame :: "'j \<Rightarrow> exn + ('f, 'x) raw_row frame"
  fails :: "event \<Rightarrow> exn option"

definition external :: "event \<Rightarrow> exn + 'a \<Rightarrow> 'a io" where
  "external ev r = ([ev], r)"

definition call :: "('f, 'x, 'r, 'j) env \<Rightarrow> event \<Rightarrow> unit io" where
  "call w ev = external ev (case fails w ev of None \<Rightarrow> Inr () | Some e \<Rightarrow> Inl e)"

text \<open>\<^verbatim>\<open>datetime.now()\<close>, the \<open>k\<close>-th reading of the clock.\<close>

definition datetime_now :: "('f, 'x, 'r, 'j) env \<Rightarrow> nat \<Rightarrow> timestamp io" where
  "datetime_now w k = external DatetimeNow (Inr (clock w k))"

section \<open>Transform stage: the three derivations\<close>

subsection \<open>Age\<close>

definition ns_per_day :: int where
  "ns_per_day = 86400 * 1000000000"

definition in_int64 :: "int \<Rightarrow> bool" where
  "in_int64 n = (- (2 ^ 63) < n \<and> n < 2 ^ 63)"

text \<open>Line 96: a date outside the range of a nanosecond timestamp is coerced to \<^verbatim>\<open>NaT\<close>.\<close>

definition to_datetime :: "parser \<Rightarrow> string option list \<Rightarrow> timestamp option list" where
  "to_datetime p col =
     map (\<lambda>c. case c of
                None \<Rightarrow> None
              | Some s \<Rightarrow>
                  (case p col s of
                     None \<Rightarrow> None
                   | Some t \<Rightarrow> if in_int64 t then Some t else None)) col"

text \<open>
  Line 98, \<^verbatim>\<open>today - dob\<close>: subtracting a timezone-aware column from the naive
  \<^verbatim>\<open>datetime.now()\<close> raises \<^verbatim>\<open>TypeError\<close>; a reading of the clock or a difference that does
  not fit int64 nanoseconds raises \<^verbatim>\<open>OverflowError\<close>. Otherwise the result is the column
  of differences, \<^verbatim>\<open>NaT\<close> where the date is.
\<close>

definition notna :: "'v option list \<Rightarrow> 'v list" where
  "notna x = List.map_filter id x"

definition sub_datetime ::
  "bool \<Rightarrow> timestamp \<Rightarrow> timestamp option list \<Rightarrow> exn + int option list" where
  "sub_datetime aware today col =
     (if aware then Inl TypeError
      else if \<not> in_int64 today then Inl OverflowError
      else if \<not> list_all (\<lambda>t. in_int64 (today - t)) (notna col) then Inl OverflowError
      else Inr (map (map_option (\<lambda>t. today - t)) col))"

text \<open>\<^verbatim>\<open>.dt.days\<close>: the whole days of a time difference, rounded towards minus infinity as
  pandas does for negative differences.\<close>

definition dt_days :: "int \<Rightarrow> int" where
  "dt_days delta = delta div ns_per_day"

text \<open>\<^verbatim>\<open>.astype(int)\<close> on a float column drops the fractional part (towards zero).\<close>

definition astype_int :: "rat \<Rightarrow> int" where
  "astype_int q = (if q < 0 then \<lceil>q\<rceil> else \<lfloor>q\<rfloor>)"

text \<open>
  \<^verbatim>\<open>.dt.days / 365.25\<close>, then \<^verbatim>\<open>.fillna(0).astype(int)\<close>. The quotient is computed here
  exactly where the code divides in float64: the number of days is an integer below
  \<open>2 ^ 18\<close> in absolute value (the difference fits int64 nanoseconds), so the float64
  quotient is exact when it is an integer and otherwise keeps a distance of more than
  \<open>1 / 1461 - 2 ^ 18 / 2 ^ 52\<close> from every integer: dropping the fractional part gives the
  same integer.
\<close>

definition age_years :: "int option \<Rightarrow> rat option" where
  "age_years delta = map_option (\<lambda>d. of_int (dt_days d) / 365.25) delta"

definition fillna_zero :: "rat option \<Rightarrow> rat" where
  "fillna_zero a = (case a of None \<Rightarrow> 0 | Some q \<Rightarrow> q)"

definition age_of :: "int option \<Rightarrow> int" where
  "age_of delta = astype_int (fillna_zero (age_years delta))"

definition with_age ::
  "('f, 'x) raw_row \<Rightarrow> timestamp option \<Rightarrow> int option \<Rightarrow> ('f, 'x) clean_row" where
  "with_age r d delta =
     \<lparr>patient_id = patient_id r, department = department r, dob = d,
      billing_amount = billing_amount r, age = age_of delta, other = other r\<rparr>"

definition add_column :: "string \<Rightarrow> string list \<Rightarrow> string list" where
  "add_column c cs = (if c \<in> set cs then cs else cs @ [c])"

text \<open>Lines 96 to 99, given the reading \<open>today\<close> of the clock.\<close>

definition derive_age ::
  "parser \<Rightarrow> bool \<Rightarrow> timestamp \<Rightarrow> ('f, 'x) raw_row frame \<Rightarrow> exn + ('f, 'x) clean_row frame" where
  "derive_age p aware today df =
     (let parsed = to_datetime p (map dob (rows df))
      in case sub_datetime aware today parsed of
           Inl e \<Rightarrow> Inl e
         | Inr deltas \<Rightarrow>
             Inr \<lparr>columns = add_column ''age'' (columns df),
                  rows = map (\<lambda>(r, d, delta). with_age r d delta)
                             (zip (rows df) (zip parsed deltas))\<rparr>)"

subsection \<open>Grouped imputation of billing_amount\<close>

text \<open>
  \<^verbatim>\<open>df.groupby('department')\<close> with the defaults \<^verbatim>\<open>sort=True, dropna=True\<close>: the group keys
  are the distinct non-missing departments in ascending order, and a group is the list of
  positions of its rows, in row order. Rows with a missing department are in no group.
\<close>

definition groupby_keys :: "('f, 'd, 'a, 'x) row list \<Rightarrow> string list" where
  "groupby_keys rs = sort (remdups (List.map_filter department rs))"

definition group_indices :: "('f, 'd, 'a, 'x) row list \<Rightarrow> string \<Rightarrow> nat list" where
  "group_indices rs k = filter (\<lambda>i. department (rs ! i) = Some k) [0..<length rs]"

definition group_column :: "('f, 'd, 'a, 'x) row list \<Rightarrow> string \<Rightarrow> 'f option list" where
  "group_column rs k = map (\<lambda>i. billing_amount (rs ! i)) (group_indices rs k)"

text \<open>\<^verbatim>\<open>Series.mean()\<close> skips missing values; the mean of no value is \<^verbatim>\<open>NaN\<close>.\<close>

definition series_mean :: "('f, 'x, 'r, 'j) env \<Rightarrow> 'f option list \<Rightarrow> 'f option" where
  "series_mean w x = (if notna x = [] then None else np_mean w x)"

text \<open>\<^verbatim>\<open>x.fillna(m)\<close>: every missing cell becomes \<open>m\<close>; filling with \<^verbatim>\<open>NaN\<close> changes nothing.\<close>

definition fillna :: "'f option list \<Rightarrow> 'f option \<Rightarrow> 'f option list" where
  "fillna x m = map (\<lambda>c. case c of None \<Rightarrow> m | Some v \<Rightarrow> Some v) x"

text \<open>
  \<^verbatim>\<open>.transform(lambda x: x.fillna(x.mean()))\<close>: the function is applied to each group's column,
  the pieces are concatenated and put back at the positions of their rows. A row of no
  group (missing department) gets \<^verbatim>\<open>NaN\<close>, as in pandas 1.5 and later.
\<close>

definition transform_pieces ::
  "('f, 'x, 'r, 'j) env \<Rightarrow> ('f, 'd, 'a, 'x) row list \<Rightarrow> (nat \<times> 'f option) list" where
  "transform_pieces w rs =
     concat (map (\<lambda>k. zip (group_indices rs k)
                          (fillna (group_column rs k) (series_mean w (group_column rs k))))
                 (groupby_keys rs))"

definition groupby_transform ::
  "('f, 'x, 'r, 'j) env \<Rightarrow> ('f, 'd, 'a, 'x) row list \<Rightarrow> 'f option list" where
  "groupby_transform w rs =
     map (\<lambda>i. case map_of (transform_pieces w rs) i of None \<Rightarrow> None | Some c \<Rightarrow> c)
         [0..<length rs]"

definition set_billing :: "('f, 'd, 'a, 'x) row \<Rightarrow> 'f option \<Rightarrow> ('f, 'd, 'a, 'x) row" where
  "set_billing r c = r\<lparr>billing_amount := c\<rparr>"

text \<open>Lines 103 to 106: the column is replaced by the transformed one, then every cell
  that is not missing is rounded.\<close>

definition impute_billing ::
  "('f, 'x, 'r, 'j) env \<Rightarrow> ('f, 'd, 'a, 'x) row frame \<Rightarrow> ('f, 'd, 'a, 'x) row frame" where
  "impute_billing w df =
     df\<lparr>rows := map2 set_billing (rows df)
                  (map (map_option (np_round w)) (groupby_transform w (rows df)))\<rparr>"

subsection \<open>Department summary\<close>

text \<open>
  \<^verbatim>\<open>groupby('department').agg(...)\<close>: \<^verbatim>\<open>count\<close> counts the non-missing cells of
  \<^verbatim>\<open>patient_id\<close>, \<^verbatim>\<open>sum\<close> adds the non-missing cells of \<^verbatim>\<open>billing_amount\<close> (0.0 for none),
  \<^verbatim>\<open>mean\<close> is their mean (\<^verbatim>\<open>NaN\<close> for none); line 115 rounds the mean.
\<close>

definition series_count :: "'v option list \<Rightarrow> nat" where
  "series_count x = length (filter (\<lambda>c. c \<noteq> None) x)"

definition agg_sum :: "('f, 'x, 'r, 'j) env \<Rightarrow> 'f option list \<Rightarrow> 'f option" where
  "agg_sum w x = (if notna x = [] then Some (zero w) else group_sum w x)"

definition agg_mean :: "('f, 'x, 'r, 'j) env \<Rightarrow> 'f option list \<Rightarrow> 'f option" where
  "agg_mean w x = (if notna x = [] then None else group_mean w x)"

definition agg_group ::
  "('f, 'x, 'r, 'j) env \<Rightarrow> ('f, 'd, 'a, 'x) row list \<Rightarrow> string \<Rightarrow> 'f summary_row" where
  "agg_group w rs k =
     \<lparr>department_key = k,
      number_of_patients = series_count (map (\<lambda>i. patient_id (rs ! i)) (group_indices rs k)),
      total_revenue = agg_sum w (group_column rs k),
      average_billing = map_option (np_round w) (agg_mean w (group_column rs k))\<rparr>"

definition department_summary ::
  "('f, 'x, 'r, 'j) env \<Rightarrow> ('f, 'd, 'a, 'x) row frame \<Rightarrow> 'f summary_row frame" where
  "department_summary w df =
     \<lparr>columns = [''department'', ''number_of_patients'', ''total_revenue'', ''average_billing''],
      rows = map (agg_group w (rows df)) (groupby_keys (rows df))\<rparr>"

section \<open>Configuration and setup\<close>

text \<open>The module-level dictionary \<^verbatim>\<open>config\<close>; every function receives it as an argument.\<close>

record config =
  source :: string
  local_patient_data_path :: string
  patient_data_url :: string
  api_url :: string
  raw_data_dir :: string
  processed_data_dir :: string
  patients_csv_file :: string
  processed_patients_file :: string
  processed_department_summary_file :: string
  mongo_db_uri :: string
  lake_db_name :: string
  lake_patients_collection :: string
  warehouse_db_name :: string
  warehouse_patients_collection :: string
  warehouse_department_summary_collection :: string

definition setup_directories :: "('f, 'x, 'r, 'j) env \<Rightarrow> config \<Rightarrow> unit io" where
  "setup_directories w cfg =
     then_io (call w (Makedirs (raw_data_dir cfg)))
    (then_io (call w (Makedirs (processed_data_dir cfg)))
     (print ''Data directories are set up.''))"

section \<open>Extract\<close>

definition extract_local_csv :: "('f, 'x, 'r, 'j) env \<Rightarrow> config \<Rightarrow> ('f, 'x) raw_row frame option io" where
  "extract_local_csv w cfg =
     (let path = local_patient_data_path cfg
      in try_except
           (bind_io (external (ReadCsv path) (read_csv w path)) (\<lambda>df.
            then_io (print (''Successfully extracted patient data from local file: '' @ path))
            (return_io (Some df))))
           (\<lambda>e. case e of
                  FileNotFoundError _ \<Rightarrow>
                    then_io (print (''Error: Local file not found at '' @ path
                                    @ ''. Please ensure the file exists.''))
                    (return_io None)
                | _ \<Rightarrow>
                    then_io (print (''Error reading local file '' @ path @ '': '' @ exn_str e))
                    (return_io None)))"

definition extract_csv :: "('f, 'x, 'r, 'j) env \<Rightarrow> config \<Rightarrow> ('f, 'x) raw_row frame option io" where
  "extract_csv w cfg =
     (let url = patient_data_url cfg
      in try_except
           (bind_io (external (ReadCsv url) (read_csv w url)) (\<lambda>df.
            then_io (print ''Successfully extracted patient data from CSV URL.'')
            (return_io (Some df))))
           (\<lambda>e. then_io (print (''Error extracting data from '' @ url @ '': '' @ exn_str e))
                 (return_io None)))"

definition extract_api :: "('f, 'x, 'r, 'j) env \<Rightarrow> config \<Rightarrow> ('f, 'x) raw_row frame option io" where
  "extract_api w cfg =
     (let url = api_url cfg
      in try_except
           (bind_io (external (RequestsGet url) (requests_get w url)) (\<lambda>response.
            then_io (external RaiseForStatus (raise_for_status w response))
           (bind_io (external ResponseJson (response_json w response)) (\<lambda>patients.
            bind_io (external BuildDataFrame (data_frame w patients)) (\<lambda>df.
            then_io (print (''Successfully extracted patient data from API: '' @ url))
            (return_io (Some df)))))))
           (\<lambda>e. then_io (print (''Error extracting data from API '' @ url @ '': '' @ exn_str e))
                 (return_io None)))"

definition "extract" :: "('f, 'x, 'r, 'j) env \<Rightarrow> config \<Rightarrow> ('f, 'x) raw_row frame option io" where
  "extract w cfg =
     then_io (print (''Attempting to extract data from source: '' @ [CHR 0x27] @ source cfg
                     @ [CHR 0x27]))
     (if source cfg = ''local_csv'' then extract_local_csv w cfg
      else if source cfg = ''csv'' then extract_csv w cfg
      else if source cfg = ''api'' then extract_api w cfg
      else return_io None)"

section \<open>Transform\<close>

text \<open>Selecting a column that the frame does not have raises \<^verbatim>\<open>KeyError\<close>.\<close>

definition getitem :: "'r frame \<Rightarrow> string \<Rightarrow> unit io" where
  "getitem df c = (if c \<in> set (columns df) then return_io () else raise_io (KeyError c))"

definition transform ::
  "('f, 'x, 'r, 'j) env \<Rightarrow> ('f, 'x) raw_row frame option
     \<Rightarrow> (('f, 'x) clean_row frame option \<times> 'f summary_row frame option) io" where
  "transform w raw_patients_df =
     (case raw_patients_df of
        None \<Rightarrow>
          then_io (print ''Transformation skipped as there is no data to transform.'')
          (return_io (None, None))
      | Some raw \<Rightarrow>
          then_io (print ''Starting data transformation...'')
         (then_io (getitem raw ''dob'')
         (bind_io (datetime_now w 0) (\<lambda>today.
          bind_io ([], derive_age (parse_datetime w) (tz_aware w (map dob (rows raw))) today raw)
            (\<lambda>aged.
          then_io (print ''Enrichment: Calculated patient ages.'')
         (then_io (getitem aged ''department'')
         (then_io (getitem aged ''billing_amount'')
         (let patients_clean_df = impute_billing w aged
          in then_io (print ''Cleaning: Imputed missing billing amounts based on department average.'')
            (then_io (getitem patients_clean_df ''patient_id'')
            (let department_summary_df = department_summary w patients_clean_df
             in then_io (print ''Aggregation: Created department financial and patient summary.'')
               (then_io (print ''Transformation complete.'')
               (return_io (Some patients_clean_df, Some department_summary_df)))))))))))))"

section \<open>Load and the orchestrator\<close>

text \<open>
  The loaders receive their positional arguments (all but \<^verbatim>\<open>config\<close>) as a list, since the
  generic \<^verbatim>\<open>load\<close> calls its \<^verbatim>\<open>load_fn\<close> with one or with two datasets; a call with another
  number of arguments is Python's \<^verbatim>\<open>TypeError\<close>. The documents written are not part of
  the events: an event names the call and its destination.
\<close>

datatype ('f, 'x) dataset =
    Raw "('f, 'x) raw_row frame"
  | Clean "('f, 'x) clean_row frame"
  | Summary "'f summary_row frame"

definition load_to_lake :: "('f, 'x, 'r, 'j) env \<Rightarrow> ('f, 'x) dataset list \<Rightarrow> config \<Rightarrow> unit io" where
  "load_to_lake w args cfg =
     (case args of
        [df] \<Rightarrow>
          then_io (call w (MongoClient (mongo_db_uri cfg)))
         (then_io (call w (DeleteMany (lake_db_name cfg) (lake_patients_collection cfg)))
         (then_io (call w (InsertMany (lake_db_name cfg) (lake_patients_collection cfg)))
          (print (''Raw patient data loaded successfully into MongoDB Lake: '' @ [CHR 0x27]
                  @ lake_db_name cfg @ ''.'' @ lake_patients_collection cfg @ [CHR 0x27]))))
      | _ \<Rightarrow> raise_io TypeError)"

definition load_to_warehouse :: "('f, 'x, 'r, 'j) env \<Rightarrow> ('f, 'x) dataset list \<Rightarrow> config \<Rightarrow> unit io" where
  "load_to_warehouse w args cfg =
     (case args of
        [df_patients, df_summary] \<Rightarrow>
          then_io (call w (MongoClient (mongo_db_uri cfg)))
         (then_io (call w (DeleteMany (warehouse_db_name cfg) (warehouse_patients_collection cfg)))
         (then_io (call w (InsertMany (warehouse_db_name cfg) (warehouse_patients_collection cfg)))
         (then_io (print (''Cleaned patient data loaded successfully into Warehouse: '' @ [CHR 0x27]
                  @ warehouse_db_name cfg @ ''.'' @ warehouse_patients_collection cfg @ [CHR 0x27]))
         (then_io (call w (DeleteMany (warehouse_db_name cfg)
                             (warehouse_department_summary_collection cfg)))
         (then_io (call w (InsertMany (warehouse_db_name cfg)
                             (warehouse_department_summary_collection cfg)))
          (print (''Department summary loaded successfully into Warehouse: '' @ [CHR 0x27]
                  @ warehouse_db_name cfg @ ''.'' @ warehouse_department_summary_collection cfg
                  @ [CHR 0x27])))))))
      | _ \<Rightarrow> raise_io TypeError)"

text \<open>\<^verbatim>\<open>dfs[i]\<close> on a Python list.\<close>

definition item :: "'a list \<Rightarrow> nat \<Rightarrow> 'a io" where
  "item xs i = (if i < length xs then return_io (xs ! i) else raise_io IndexError)"

definition load ::
  "config \<Rightarrow> (('f, 'x) dataset list \<Rightarrow> config \<Rightarrow> unit io) \<Rightarrow> ('f, 'x) dataset option list \<Rightarrow> bool \<Rightarrow> unit io" where
  "load cfg load_fn dfs is_lake =
     (if is_lake then
        bind_io (item dfs 0) (\<lambda>d0.
          case d0 of Some a \<Rightarrow> load_fn [a] cfg | None \<Rightarrow> return_io ())
      else
        bind_io (item dfs 0) (\<lambda>d0.
          case d0 of
            None \<Rightarrow> return_io ()
          | Some a \<Rightarrow>
              bind_io (item dfs 1) (\<lambda>d1.
                case d1 of Some b \<Rightarrow> load_fn [a, b] cfg | None \<Rightarrow> return_io ())))"

definition main :: "('f, 'x, 'r, 'j) env \<Rightarrow> config \<Rightarrow> unit io" where
  "main w cfg =
     then_io (setup_directories w cfg)
    (bind_io (extract w cfg) (\<lambda>raw_patients_df.
       case raw_patients_df of
         None \<Rightarrow> print ''ETL process halted due to extraction failure.''
       | Some raw \<Rightarrow>
           then_io (call w (ToCsv (patients_csv_file cfg)))
          (then_io (load cfg (load_to_lake w) [Some (Raw raw)] True)
          (bind_io (transform w (Some raw)) (\<lambda>(patients_clean_df, department_summary_df).
           then_io
             (case (patients_clean_df, department_summary_df) of
                (Some p, Some s) \<Rightarrow>
                  then_io (call w (ToCsv (processed_patients_file cfg)))
                 (then_io (call w (ToCsv (processed_department_summary_file cfg)))
                  (load cfg (load_to_warehouse w) [Some (Clean p), Some (Summary s)] False))
              | _ \<Rightarrow> return_io ())
             (print (CHR 0x0A # ''ETL process for healthcare data completed successfully!'')))))))"

section \<open>Vocabulary of the specification\<close>

text \<open>The columns the transform stage needs.\<close>

definition required_columns :: "string list" where
  "required_columns = [''dob'', ''billing_amount'', ''department'', ''patient_id'']"

text \<open>The rows of a department, its billing column, and the amounts of that column that
  are not missing, all in row order.\<close>

definition rows_of :: "('f, 'd, 'a, 'x) row list \<Rightarrow> string \<Rightarrow> ('f, 'd, 'a, 'x) row list" where
  "rows_of rs d = filter (\<lambda>r. department r = Some d) rs"

definition billing_of :: "('f, 'd, 'a, 'x) row list \<Rightarrow> string \<Rightarrow> 'f option list" where
  "billing_of rs d = map billing_amount (rows_of rs d)"

definition known_values :: "('f, 'd, 'a, 'x) row list \<Rightarrow> string \<Rightarrow> 'f list" where
  "known_values rs d =
     map (\<lambda>r. the (billing_amount r)) (filter (\<lambda>r. billing_amount r \<noteq> None) (rows_of rs d))"

definition arithmetic_mean :: "rat list \<Rightarrow> rat" where
  "arithmetic_mean vs = sum_list vs / of_nat (length vs)"

text \<open>The date of birth of row \<open>i\<close> as the run reads it: \<open>None\<close> when missing, unparseable or
  out of range.\<close>

definition parsed_dob :: "parser \<Rightarrow> ('f, 'x) raw_row list \<Rightarrow> nat \<Rightarrow> timestamp option" where
  "parsed_dob p rs i =
     (case dob (rs ! i) of
        None \<Rightarrow> None
      | Some s \<Rightarrow>
          (case p (map dob rs) s of
             None \<Rightarrow> None
           | Some t \<Rightarrow> if in_int64 t then Some t else None))"

text \<open>The events of a transform stage that returns its two datasets.\<close>

definition transform_events :: "event list" where
  "transform_events =
     [Print ''Starting data transformation...'',
      DatetimeNow,
      Print ''Enrichment: Calculated patient ages.'',
      Print ''Cleaning: Imputed missing billing amounts based on department average.'',
      Print ''Aggregation: Created department financial and patient summary.'',
      Print ''Transformation complete.'']"

text \<open>The derived patients and the summary of a call, when it returned them.\<close>

definition clean_of :: "('c option \<times> 's option) io \<Rightarrow> 'c option" where
  "clean_of r = (case snd r of Inl e \<Rightarrow> None | Inr (c, s) \<Rightarrow> c)"

definition summary_of :: "('c option \<times> 's option) io \<Rightarrow> 's option" where
  "summary_of r = (case snd r of Inl e \<Rightarrow> None | Inr (c, s) \<Rightarrow> s)"

text \<open>What the external calls of the selected source deliver, if the selector is known.\<close>

definition api_outcome :: "('f, 'x, 'r, 'j) env \<Rightarrow> string \<Rightarrow> exn + ('f, 'x) raw_row frame" where
  "api_outcome w url =
     (case requests_get w url of
        Inl e \<Rightarrow> Inl e
      | Inr response \<Rightarrow>
          (case raise_for_status w response of
             Inl e \<Rightarrow> Inl e
           | Inr _ \<Rightarrow>
               (case response_json w response of
                  Inl e \<Rightarrow> Inl e
                | Inr patients \<Rightarrow> data_frame w patients)))"

definition extraction_outcome ::
  "('f, 'x, 'r, 'j) env \<Rightarrow> config \<Rightarrow> (exn + ('f, 'x) raw_row frame) option" where
  "extraction_outcome w cfg =
     (if source cfg = ''local_csv'' then Some (read_csv w (local_patient_data_path cfg))
      else if source cfg = ''csv'' then Some (read_csv w (patient_data_url cfg))
      else if source cfg = ''api'' then Some (api_outcome w (api_url cfg))
      else None)"

text \<open>Persistence actions: writing a snapshot file and every call of a loader.\<close>

fun is_persistence :: "event \<Rightarrow> bool" where
  "is_persistence (ToCsv _) = True"
| "is_persistence (MongoClient _) = True"
| "is_persistence (DeleteMany _ _) = True"
| "is_persistence (InsertMany _ _) = True"
| "is_persistence _ = False"

text \<open>The first line \<^verbatim>\<open>extract\<close> prints.\<close>

definition attempting :: "config \<Rightarrow> event" where
  "attempting cfg =
     Print (''Attempting to extract data from source: '' @ [CHR 0x27] @ source cfg @ [CHR 0x27])"

section \<open>A world with binary64 arithmetic\<close>

text \<open>
  A finite float64 is the rational it denotes. \<open>fl64 q\<close> is the float64 nearest to \<open>q\<close>, a
  tie going to the even significand (normal range; no overflow, no subnormals), and every
  arithmetic operation is the exact one followed by \<open>fl64\<close>.
\<close>

definition ilog2 :: "rat \<Rightarrow> int" where
  "ilog2 q =
     (let (a, b) = quotient_of \<bar>q\<bar>; k = bitlen a - bitlen b
      in if (if 0 \<le> k then of_int b * 2 ^ nat k \<le> (of_int a :: rat)
             else (of_int b :: rat) \<le> of_int a * 2 ^ nat (- k))
         then k else k - 1)"

definition pow2 :: "int \<Rightarrow> rat" where
  "pow2 e = (if 0 \<le> e then 2 ^ nat e else 1 / 2 ^ nat (- e))"

text \<open>\<^verbatim>\<open>rint\<close>: the nearest integer, a tie going to the even one.\<close>

definition rint :: "rat \<Rightarrow> int" where
  "rint q =
     (let f = \<lfloor>q\<rfloor>; d = q - of_int f
      in if d < 1 / 2 then f else if 1 / 2 < d then f + 1 else if even f then f else f + 1)"

definition fl64 :: "rat \<Rightarrow> rat" where
  "fl64 q = (if q = 0 then 0 else let e = ilog2 q - 52 in of_int (rint (q / pow2 e)) * pow2 e)"

definition fadd :: "rat \<Rightarrow> rat \<Rightarrow> rat" where
  "fadd a b = fl64 (a + b)"

text \<open>Summation from left to right. For at most two values, and whenever the partial sums
  are exact, every order and every compensated summation gives the same float64.\<close>

definition fsum :: "rat list \<Rightarrow> rat" where
  "fsum vs = foldl fadd 0 vs"

definition fmean :: "rat option list \<Rightarrow> rat option" where
  "fmean x = Some (fl64 (fsum (notna x) / of_nat (length (notna x))))"

text \<open>numpy's \<^verbatim>\<open>round(x, 2)\<close> on float64: \<^verbatim>\<open>rint(x * 100) / 100\<close>, each step in float64.\<close>

definition fround2 :: "rat \<Rightarrow> rat" where
  "fround2 x = fl64 (of_int (rint (fl64 (x * 100))) / 100)"

section \<open>Example runs\<close>

text \<open>
  The run happens at 2024-01-01 00:00, and every further reading of the clock is a
  nanosecond later. The frames:
  \<^item> \<open>example_frame\<close>, the example of the specification: two patients of ER, one of them
    without date of birth and billing amount, one patient of ICU without billing amount;
  \<^item> \<open>ward_frame\<close>: ER with the amounts 1, 2, 2 and a missing one, ICU with a missing one;
  \<^item> \<open>cents_frame\<close>: ER with the amounts 1.25, 1.26 (as \<^verbatim>\<open>read_csv\<close> stores them) and a
    missing one; \<open>pair_frame\<close>: ICU with the amounts 1.25 and 1.26;
  \<^item> \<open>future_frame\<close>: a patient born after the run; \<open>anonymous_frame\<close>: a row without
    patient_id; \<open>headless_frame\<close>: the example without the column \<^verbatim>\<open>dob\<close>.
\<close>

definition example_parser :: parser where
  "example_parser col s =
     (if s = ''2000-01-01'' then Some (946684800 * 1000000000)
      else if s = ''1990-01-01'' then Some (631152000 * 1000000000)
      else if s = ''2030-01-01'' then Some (1893456000 * 1000000000)
      else None)"

definition example_columns :: "string list" where
  "example_columns = [''patient_id'', ''department'', ''dob'', ''billing_amount'']"

definition example_frame :: "(rat, unit) raw_row frame" where
  "example_frame =
     \<lparr>columns = example_columns,
      rows =
        [\<lparr>patient_id = Some 1, department = Some ''ER'', dob = Some ''2000-01-01'',
          billing_amount = Some 100, age = (), other = ()\<rparr>,
         \<lparr>patient_id = Some 2, department = Some ''ER'', dob = None,
          billing_amount = None, age = (), other = ()\<rparr>,
         \<lparr>patient_id = Some 3, department = Some ''ICU'', dob = Some ''1990-01-01'',
          billing_amount = None, age = (), other = ()\<rparr>]\<rparr>"

definition ward_frame :: "(rat, unit) raw_row frame" where
  "ward_frame =
     \<lparr>columns = example_columns,
      rows =
        [\<lparr>patient_id = Some 1, department = Some ''ER'', dob = Some ''2000-01-01'',
          billing_amount = Some 1, age = (), other = ()\<rparr>,
         \<lparr>patient_id = Some 2, department = Some ''ER'', dob = Some ''1990-01-01'',
          billing_amount = Some 2, age = (), other = ()\<rparr>,
         \<lparr>patient_id = Some 3, department = Some ''ER'', dob = None,
          billing_amount = Some 2, age = (), other = ()\<rparr>,
         \<lparr>patient_id = Some 4, department = Some ''ER'', dob = None,
          billing_amount = None, age = (), other = ()\<rparr>,
         \<lparr>patient_id = Some 5, department = Some ''ICU'', dob = None,
          billing_amount = None, age = (), other = ()\<rparr>]\<rparr>"

definition cents_frame :: "(rat, unit) raw_row frame" where
  "cents_frame =
     \<lparr>columns = example_columns,
      rows =
        [\<lparr>patient_id = Some 1, department = Some ''ER'', dob = None,
          billing_amount = Some (fl64 (125 / 100)), age = (), other = ()\<rparr>,
         \<lparr>patient_id = Some 2, department = Some ''ER'', dob = None,
          billing_amount = Some (fl64 (126 / 100)), age = (), other = ()\<rparr>,
         \<lparr>patient_id = Some 3, department = Some ''ER'', dob = None,
          billing_amount = None, age = (), other = ()\<rparr>]\<rparr>"

definition pair_frame :: "(rat, unit) raw_row frame" where
  "pair_frame =
     \<lparr>columns = example_columns,
      rows =
        [\<lparr>patient_id = Some 1, department = Some ''ICU'', dob = None,
          billing_amount = Some (fl64 (125 / 100)), age = (), other = ()\<rparr>,
         \<lparr>patient_id = Some 2, department = Some ''ICU'', dob = None,
          billing_amount = Some (fl64 (126 / 100)), age = (), other = ()\<rparr>]\<rparr>"

definition future_frame :: "(rat, unit) raw_row frame" where
  "future_frame =
     \<lparr>columns = example_columns,
      rows =
        [\<lparr>patient_id = Some 1, department = Some ''ER'', dob = Some ''2030-01-01'',
          billing_amount = Some 100, age = (), other = ()\<rparr>]\<rparr>"

definition anonymous_frame :: "(rat, unit) raw_row frame" where
  "anonymous_frame =
     \<lparr>columns = example_columns,
      rows =
        [\<lparr>patient_id = None, department = Some ''ER'', dob = Some ''2000-01-01'',
          billing_amount = Some 100, age = (), other = ()\<rparr>]\<rparr>"

definition headless_frame :: "(rat, unit) raw_row frame" where
  "headless_frame = example_frame\<lparr>columns := [''patient_id'', ''department'', ''billing_amount'']\<rparr>"

text \<open>The world of the examples: binary64 arithmetic, every source delivers the example
  frame, no external call fails.\<close>

definition example_env :: "(rat, unit, unit, unit) env" where
  "example_env =
     \<lparr>clock = (\<lambda>k. 1704067200 * 1000000000 + int k),
      parse_datetime = example_parser,
      tz_aware = (\<lambda>col. False),
      np_mean = fmean,
      np_round = fround2,
      group_sum = (\<lambda>x. Some (fsum (notna x))),
      group_mean = fmean,
      zero = 0,
      read_csv = (\<lambda>path. Inr example_frame),
      requests_get = (\<lambda>url. Inr ()),
      raise_for_status = (\<lambda>response. Inr ()),
      response_json = (\<lambda>response. Inr ()),
      data_frame = (\<lambda>patients. Inr example_frame),
      fails = (\<lambda>ev. None)\<rparr>"

text \<open>
  Worlds that differ from it: one whose date parser returns timezone-aware dates, one
  that delivers the frame without \<^verbatim>\<open>dob\<close>, one in which no source can be reached.
\<close>

definition aware_env :: "(rat, unit, unit, unit) env" where
  "aware_env = example_env\<lparr>tz_aware := (\<lambda>col. True)\<rparr>"

definition headless_env :: "(rat, unit, unit, unit) env" where
  "headless_env = example_env\<lparr>read_csv := (\<lambda>path. Inr headless_frame)\<rparr>"

definition offline_env :: "(rat, unit, unit, unit) env" where
  "offline_env =
     example_env\<lparr>read_csv := (\<lambda>path. Inl (FileNotFoundError ''No such file or directory'')),
                 requests_get := (\<lambda>url. Inl (OtherException ''Connection refused''))\<rparr>"

text \<open>The configuration of the source file, with a local document store, and one with a
  selector the extractor does not know.\<close>

definition example_config :: config where
  "example_config =
     \<lparr>source = ''local_csv'',
      local_patient_data_path = ''./data/raw/patients_data.csv'',
      patient_data_url = ''https://example.org/patients.csv'',
      api_url = ''http://localhost:5000/patients'',
      raw_data_dir = ''./data/raw/'',
      processed_data_dir = ''./data/processed/'',
      patients_csv_file = ''./data/raw/patients.csv'',
      processed_patients_file = ''./data/processed/patients_clean.csv'',
      processed_department_summary_file = ''./data/processed/department_summary.csv'',
      mongo_db_uri = ''mongodb://localhost'',
      lake_db_name = ''healthcare_lake_db'',
      lake_patients_collection = ''patients'',
      warehouse_db_name = ''healthcare_warehouse_db'',
      warehouse_patients_collection = ''patients_clean'',
      warehouse_department_summary_collection = ''department_summary''\<rparr>"

definition unknown_config :: config where
  "unknown_config = example_config\<lparr>source := ''xml''\<rparr>"

text \<open>
  What these runs yield. The amount 940126422213591 / 562949953421312 is the float64
  nearest to 1.67, 3754876189320151 / 562949953421312 the one nearest to 6.67,
  5674535530486825 / 4503599627370496 the one nearest to 1.26 and
  1413004383087493 / 562949953421312 the one nearest to 2.51; 1.25 is a float64.
\<close>

definition example_clean :: "(rat, unit) clean_row frame" where
  "example_clean =
     \<lparr>columns = [''patient_id'', ''department'', ''dob'', ''billing_amount'', ''age''],
      rows =
        [\<lparr>patient_id = Some 1, department = Some ''ER'', dob = Some (946684800 * 1000000000),
          billing_amount = Some 100, age = 24, other = ()\<rparr>,
         \<lparr>patient_id = Some 2, department = Some ''ER'', dob = None,
          billing_amount = Some 100, age = 0, other = ()\<rparr>,
         \<lparr>patient_id = Some 3, department = Some ''ICU'', dob = Some (631152000 * 1000000000),
          billing_amount = None, age = 33, other = ()\<rparr>]\<rparr>"

definition example_summary :: "rat summary_row frame" where
  "example_summary =
     \<lparr>columns = [''department'', ''number_of_patients'', ''total_revenue'', ''average_billing''],
      rows =
        [\<lparr>department_key = ''ER'', number_of_patients = 2, total_revenue = Some 200,
          average_billing = Some 100\<rparr>,
         \<lparr>department_key = ''ICU'', number_of_patients = 1, total_revenue = Some 0,
          average_billing = None\<rparr>]\<rparr>"

definition ward_clean :: "(rat, unit) clean_row frame" where
  "ward_clean =
     \<lparr>columns = [''patient_id'', ''department'', ''dob'', ''billing_amount'', ''age''],
      rows =
        [\<lparr>patient_id = Some 1, department = Some ''ER'', dob = Some (946684800 * 1000000000),
          billing_amount = Some 1, age = 24, other = ()\<rparr>,
         \<lparr>patient_id = Some 2, department = Some ''ER'', dob = Some (631152000 * 1000000000),
          billing_amount = Some 2, age = 33, other = ()\<rparr>,
         \<lparr>patient_id = Some 3, department = Some ''ER'', dob = None,
          billing_amount = Some 2, age = 0, other = ()\<rparr>,
         \<lparr>patient_id = Some 4, department = Some ''ER'', dob = None,
          billing_amount = Some (940126422213591 / 562949953421312), age = 0, other = ()\<rparr>,
         \<lparr>patient_id = Some 5, department = Some ''ICU'', dob = None,
          billing_amount = None, age = 0, other = ()\<rparr>]\<rparr>"

definition ward_summary :: "rat summary_row frame" where
  "ward_summary =
     \<lparr>columns = [''department'', ''number_of_patients'', ''total_revenue'', ''average_billing''],
      rows =
        [\<lparr>department_key = ''ER'', number_of_patients = 4, total_revenue = Some (3754876189320151 / 562949953421312),
          average_billing = Some (940126422213591 / 562949953421312)\<rparr>,
         \<lparr>department_key = ''ICU'', number_of_patients = 1, total_revenue = Some 0,
          average_billing = None\<rparr>]\<rparr>"

definition pair_clean :: "(rat, unit) clean_row frame" where
  "pair_clean =
     \<lparr>columns = [''patient_id'', ''department'', ''dob'', ''billing_amount'', ''age''],
      rows =
        [\<lparr>patient_id = Some 1, department = Some ''ICU'', dob = None,
          billing_amount = Some (5 / 4), age = 0, other = ()\<rparr>,
         \<lparr>patient_id = Some 2, department = Some ''ICU'', dob = None,
          billing_amount = Some (5674535530486825 / 4503599627370496), age = 0, other = ()\<rparr>]\<rparr>"

definition pair_summary :: "rat summary_row frame" where
  "pair_summary =
     \<lparr>columns = [''department'', ''number_of_patients'', ''total_revenue'', ''average_billing''],
      rows =
        [\<lparr>department_key = ''ICU'', number_of_patients = 2, total_revenue = Some (1413004383087493 / 562949953421312),
          average_billing = Some (5 / 4)\<rparr>]\<rparr>"

definition future_clean :: "(rat, unit) clean_row frame" where
  "future_clean =
     \<lparr>columns = [''patient_id'', ''department'', ''dob'', ''billing_amount'', ''age''],
      rows =
        [\<lparr>patient_id = Some 1, department = Some ''ER'', dob = Some (1893456000 * 1000000000),
          billing_amount = Some 100, age = - 6, other = ()\<rparr>]\<rparr>"

definition future_summary :: "rat summary_row frame" where
  "future_summary =
     \<lparr>columns = [''department'', ''number_of_patients'', ''total_revenue'', ''average_billing''],
      rows =
        [\<lparr>department_key = ''ER'', number_of_patients = 1, total_revenue = Some 100,
          average_billing = Some 100\<rparr>]\<rparr>"

definition anonymous_clean :: "(rat, unit) clean_row frame" where
  "anonymous_clean =
     \<lparr>columns = [''patient_id'', ''department'', ''dob'', ''billing_amount'', ''age''],
      rows =
        [\<lparr>patient_id = None, department = Some ''ER'', dob = Some (946684800 * 1000000000),
          billing_amount = Some 100, age = 24, other = ()\<rparr>]\<rparr>"

definition anonymous_summary :: "rat summary_row frame" where
  "anonymous_summary =
     \<lparr>columns = [''department'', ''number_of_patients'', ''total_revenue'', ''average_billing''],
      rows =
        [\<lparr>department_key = ''ER'', number_of_patients = 0, total_revenue = Some 100,
          average_billing = Some 100\<rparr>]\<rparr>"

section \<open>Groups, means and positions\<close>

lemma map_filter_nth:
  "map (\<lambda>i. f (rs ! i)) (filter (\<lambda>i. P (rs ! i)) [0..<length rs]) = map f (filter P rs)"
proof -
  have "map f (filter P rs) = map f (filter P (map ((!) rs) [0..<length rs]))"
    by (simp add: map_nth)
  also have "\<dots> = map (\<lambda>i. f (rs ! i)) (filter (\<lambda>i. P (rs ! i)) [0..<length rs])"
    by (simp add: filter_map comp_def)
  finally show ?thesis by simp
qed

lemma group_column_billing_of: "group_column rs k = billing_of rs k"
  unfolding group_column_def group_indices_def billing_of_def rows_of_def
  by (rule map_filter_nth)

lemma notna_eq: "notna x = map the (filter (\<lambda>c. c \<noteq> None) x)"
  by (induction x) (auto simp: notna_def List.map_filter_simps split: option.splits)

lemma notna_billing_of: "notna (billing_of rs k) = known_values rs k"
  by (simp add: notna_eq billing_of_def known_values_def filter_map comp_def)

lemma series_mean_group:
  "series_mean w (group_column rs k) =
     (if known_values rs k = [] then None else np_mean w (billing_of rs k))"
  by (simp add: series_mean_def group_column_billing_of notna_billing_of)

lemma set_groupby_keys: "set (groupby_keys rs) = {k. \<exists>r \<in> set rs. department r = Some k}"
  by (force simp: groupby_keys_def List.map_filter_def image_iff)

lemma distinct_groupby_keys: "distinct (groupby_keys rs)"
  by (simp add: groupby_keys_def)

lemma fillna_group:
  "fillna (group_column rs k) m =
     map (\<lambda>i. case billing_amount (rs ! i) of None \<Rightarrow> m | Some v \<Rightarrow> Some v) (group_indices rs k)"
  by (simp add: fillna_def group_column_def comp_def)

lemma map_of_pieces:
  "map_of (concat (map (\<lambda>k. zip (g k) (map (h k) (g k))) ks)) i =
     (case find (\<lambda>k. i \<in> set (g k)) ks of None \<Rightarrow> None | Some k \<Rightarrow> Some (h k i))"
proof (induction ks)
  case Nil
  then show ?case by simp
next
  case (Cons k ks)
  then show ?case
    by (auto simp: map_add_def map_of_zip_map split: option.splits)
qed

lemma find_key: "k \<in> set ks \<Longrightarrow> find (\<lambda>k'. k = k') ks = Some k"
  by (induction ks) auto

lemma find_no_key: "find (\<lambda>k'. False) ks = None"
  by (induction ks) auto

lemma groupby_transform_nth:
  assumes "i < length rs"
  shows "groupby_transform w rs ! i =
           (case department (rs ! i) of
              None \<Rightarrow> None
            | Some k \<Rightarrow>
                (case billing_amount (rs ! i) of
                   None \<Rightarrow> series_mean w (group_column rs k)
                 | Some v \<Rightarrow> Some v))"
proof -
  let ?h = "\<lambda>k i. case billing_amount (rs ! i) of
                     None \<Rightarrow> series_mean w (group_column rs k) | Some v \<Rightarrow> Some v"
  have pieces: "transform_pieces w rs =
      concat (map (\<lambda>k. zip (group_indices rs k) (map (?h k) (group_indices rs k)))
                  (groupby_keys rs))"
    by (simp add: transform_pieces_def fillna_group)
  have mem: "\<And>k. i \<in> set (group_indices rs k) \<longleftrightarrow> department (rs ! i) = Some k"
    using assms by (auto simp: group_indices_def)
  have m: "map_of (transform_pieces w rs) i =
      (case find (\<lambda>k. department (rs ! i) = Some k) (groupby_keys rs) of
         None \<Rightarrow> None | Some k \<Rightarrow> Some (?h k i))"
    unfolding pieces map_of_pieces mem ..
  show ?thesis
  proof (cases "department (rs ! i)")
    case None
    then show ?thesis using assms m by (simp add: groupby_transform_def find_no_key)
  next
    case (Some k)
    have "k \<in> set (groupby_keys rs)"
      using assms Some by (auto simp: set_groupby_keys intro!: bexI[of _ "rs ! i"])
    then have "find (\<lambda>k'. k = k') (groupby_keys rs) = Some k" by (rule find_key)
    then show ?thesis using assms m Some by (simp add: groupby_transform_def)
  qed
qed

lemma length_groupby_transform: "length (groupby_transform w rs) = length rs"
  by (simp add: groupby_transform_def)

subsection \<open>Frames through the stage\<close>

lemma length_to_datetime: "length (to_datetime p col) = length col"
  by (simp add: to_datetime_def)

lemma to_datetime_nth:
  "i < length rs \<Longrightarrow> to_datetime p (map dob rs) ! i = parsed_dob p rs i"
  by (simp add: to_datetime_def parsed_dob_def)

lemma sub_datetime_Inr:
  assumes "sub_datetime aware today col = Inr deltas"
  shows "\<not> aware" and "in_int64 today"
    and "deltas = map (map_option (\<lambda>t. today - t)) col"
  using assms by (auto simp: sub_datetime_def split: if_splits)

lemma derive_age_Inr:
  assumes "derive_age p aware today df = Inr aged"
  shows "\<not> aware"
    and "columns aged = add_column ''age'' (columns df)"
    and "length (rows aged) = length (rows df)"
    and "\<And>i. i < length (rows df) \<Longrightarrow>
           rows aged ! i =
             with_age (rows df ! i) (parsed_dob p (rows df) i)
               (map_option (\<lambda>t. today - t) (parsed_dob p (rows df) i))"
proof -
  obtain deltas where
    s: "sub_datetime aware today (to_datetime p (map dob (rows df))) = Inr deltas"
    and a: "aged = \<lparr>columns = add_column ''age'' (columns df),
                    rows = map (\<lambda>(r, d, delta). with_age r d delta)
                             (zip (rows df) (zip (to_datetime p (map dob (rows df))) deltas))\<rparr>"
    using assms by (auto simp: derive_age_def Let_def split: sum.splits)
  note d = sub_datetime_Inr [OF s]
  show "\<not> aware" by (rule d(1))
  show "columns aged = add_column ''age'' (columns df)" by (simp add: a)
  show "length (rows aged) = length (rows df)"
    by (simp add: a d(3) length_to_datetime)
  show "rows aged ! i =
             with_age (rows df ! i) (parsed_dob p (rows df) i)
               (map_option (\<lambda>t. today - t) (parsed_dob p (rows df) i))"
    if "i < length (rows df)" for i
    using that by (simp add: a d(3) length_to_datetime to_datetime_nth)
qed

lemma columns_aged_iff:
  "columns aged = add_column ''age'' cs \<Longrightarrow> c \<noteq> ''age'' \<Longrightarrow>
     c \<in> set (columns aged) \<longleftrightarrow> c \<in> set cs"
  by (auto simp: add_column_def)

lemma columns_impute_billing: "columns (impute_billing w df) = columns df"
  by (simp add: impute_billing_def)

lemma length_rows_impute_billing: "length (rows (impute_billing w df)) = length (rows df)"
  by (simp add: impute_billing_def length_groupby_transform)

lemma rows_impute_billing_nth:
  "i < length (rows df) \<Longrightarrow>
     rows (impute_billing w df) ! i =
       set_billing (rows df ! i) (map_option (np_round w) (groupby_transform w (rows df) ! i))"
  by (simp add: impute_billing_def length_groupby_transform)

lemma map_impute_billing:
  assumes "\<And>r c. f (set_billing r c) = f r"
  shows "map f (rows (impute_billing w df)) = map f (rows df)"
  by (rule nth_equalityI) (simp_all add: length_rows_impute_billing rows_impute_billing_nth assms)

lemma billing_impute_nth:
  assumes "i < length (rows df)"
  shows "billing_amount (rows (impute_billing w df) ! i) =
           map_option (np_round w) (groupby_transform w (rows df) ! i)"
  using assms by (simp add: rows_impute_billing_nth set_billing_def)

subsection \<open>When the stage returns\<close>

lemma transform_Some_Inr:
  assumes "transform w (Some raw) = (tr, Inr (clean, summ))"
  shows "\<exists>aged.
           derive_age (parse_datetime w) (tz_aware w (map dob (rows raw))) (clock w 0) raw
             = Inr aged \<and>
           set required_columns \<subseteq> set (columns raw) \<and>
           clean = Some (impute_billing w aged) \<and>
           summ = Some (department_summary w (impute_billing w aged)) \<and>
           tr = transform_events"
proof (cases "derive_age (parse_datetime w) (tz_aware w (map dob (rows raw))) (clock w 0) raw")
  case (Inl e)
  then show ?thesis
    using assms
    by (simp add: transform_def getitem_def then_io_def bind_io_def print_def return_io_def
        raise_io_def datetime_now_def external_def split: if_splits)
next
  case (Inr aged)
  note c = derive_age_Inr(2) [OF Inr]
  have iff: "\<And>k. k \<noteq> ''age'' \<Longrightarrow> k \<in> set (columns aged) \<longleftrightarrow> k \<in> set (columns raw)"
    using c by (rule columns_aged_iff)
  show ?thesis
    using assms Inr
    by (simp add: transform_def getitem_def then_io_def bind_io_def print_def return_io_def
        raise_io_def datetime_now_def external_def Let_def columns_impute_billing iff
        required_columns_def transform_events_def split: if_splits)
qed

lemma known_values_pairs:
  "known_values rs d =
     map (\<lambda>p. the (snd p)) (filter (\<lambda>p. fst p = Some d \<and> snd p \<noteq> None)
       (map (\<lambda>r. (department r, billing_amount r)) rs))"
  by (induction rs) (auto simp: known_values_def rows_of_def)

lemma billing_of_pairs:
  "billing_of rs d =
     map snd (filter (\<lambda>p. fst p = Some d) (map (\<lambda>r. (department r, billing_amount r)) rs))"
  by (induction rs) (auto simp: billing_of_def rows_of_def)

lemma pairs_derive_age:
  assumes "derive_age p aware today df = Inr aged"
  shows "map (\<lambda>r. (department r, billing_amount r)) (rows aged) =
         map (\<lambda>r. (department r, billing_amount r)) (rows df)"
  by (rule nth_equalityI)
    (simp_all add: derive_age_Inr(3,4) [OF assms] with_age_def)

lemma known_values_derive_age:
  "derive_age p aware today df = Inr aged \<Longrightarrow> known_values (rows aged) d = known_values (rows df) d"
  by (simp add: known_values_pairs pairs_derive_age)

lemma billing_of_derive_age:
  "derive_age p aware today df = Inr aged \<Longrightarrow> billing_of (rows aged) d = billing_of (rows df) d"
  by (simp add: billing_of_pairs pairs_derive_age)

lemma age_of_cases:
  "age_of (map_option (\<lambda>t. today - t) d) =
     (case d of
        None \<Rightarrow> 0
      | Some t \<Rightarrow>
          if t \<le> today then \<lfloor>(of_int ((today - t) div ns_per_day) :: rat) / 365.25\<rfloor>
          else \<lceil>(of_int ((today - t) div ns_per_day) :: rat) / 365.25\<rceil>)"
proof (cases d)
  case None
  then show ?thesis by (simp add: age_of_def age_years_def fillna_zero_def astype_int_def)
next
  case (Some t)
  show ?thesis
  proof (cases "t \<le> today")
    case True
    then have "0 \<le> (today - t) div ns_per_day"
      by (simp add: ns_per_day_def pos_imp_zdiv_nonneg_iff)
    then have "\<not> (of_int ((today - t) div ns_per_day) :: rat) / 365.25 < 0"
      by (simp add: not_less)
    then show ?thesis
      using Some True
      by (simp add: age_of_def age_years_def fillna_zero_def astype_int_def dt_days_def)
  next
    case False
    then have "today - t < 0" by simp
    then have "(today - t) div ns_per_day < 0"
      by (simp add: ns_per_day_def neg_imp_zdiv_neg_iff div_neg_pos_less0)
    then have "(of_int ((today - t) div ns_per_day) :: rat) / 365.25 < 0"
      by (simp add: divide_neg_pos)
    then show ?thesis
      using Some False
      by (simp add: age_of_def age_years_def fillna_zero_def astype_int_def dt_days_def)
  qed
qed

subsection \<open>The summary row of a department\<close>

lemma filter_key_map:
  assumes "distinct ks" and "k \<in> set ks" and "\<And>k'. key (f k') = k'"
  shows "filter (\<lambda>s. key s = k) (map f ks) = [f k]"
  using assms(1,2)
proof (induction ks)
  case Nil
  then show ?case by simp
next
  case (Cons a ks)
  have none: "k \<notin> set ks \<Longrightarrow> filter (\<lambda>s. key s = k) (map f ks) = []"
    by (auto simp: filter_empty_conv assms(3))
  show ?case
  proof (cases "a = k")
    case True
    then have "k \<notin> set ks" using Cons.prems by simp
    then show ?thesis using True none by (simp add: assms(3))
  next
    case False
    then have "k \<in> set ks" "distinct ks" using Cons.prems by auto
    then show ?thesis using False Cons.IH by (simp add: assms(3))
  qed
qed

lemma summary_row_of_department:
  assumes "Some d \<in> set (map department (rows df))"
  shows "filter (\<lambda>s. department_key s = d) (rows (department_summary w df))
           = [agg_group w (rows df) d]"
proof -
  have "d \<in> set (groupby_keys (rows df))"
    using assms by (auto simp: set_groupby_keys)
  then show ?thesis
    by (simp add: department_summary_def filter_key_map distinct_groupby_keys agg_group_def)
qed

lemma total_revenue_agg:
  "total_revenue (agg_group w rs d) =
     (if known_values rs d = [] then Some (zero w) else group_sum w (billing_of rs d))"
  by (simp add: agg_group_def agg_sum_def group_column_billing_of notna_billing_of)

lemma average_billing_agg:
  "average_billing (agg_group w rs d) =
     (if known_values rs d = [] then None
      else map_option (np_round w) (group_mean w (billing_of rs d)))"
  by (simp add: agg_group_def agg_mean_def group_column_billing_of notna_billing_of)

lemma series_count_map:
  "series_count (map f xs) = length (filter (\<lambda>x. f x \<noteq> None) xs)"
  by (induction xs) (auto simp: series_count_def)

lemma number_of_patients_agg:
  "number_of_patients (agg_group w rs d) =
     length (filter (\<lambda>r. patient_id r \<noteq> None) (rows_of rs d))"
proof -
  have "map (\<lambda>i. patient_id (rs ! i)) (group_indices rs d) = map patient_id (rows_of rs d)"
    unfolding group_indices_def rows_of_def by (rule map_filter_nth)
  then show ?thesis
    by (simp add: agg_group_def series_count_map)
qed

lemma rows_of_nonempty:
  "Some d \<in> set (map department rs) \<Longrightarrow> rows_of rs d \<noteq> []"
  by (auto simp: rows_of_def filter_empty_conv)

subsection \<open>Sequencing\<close>

lemma snd_bind_io:
  "snd (bind_io m f) = (case snd m of Inl e \<Rightarrow> Inl e | Inr a \<Rightarrow> snd (f a))"
  by (auto simp: bind_io_def split: prod.splits sum.splits)

lemma snd_then_io:
  "snd (then_io m n) = (case snd m of Inl e \<Rightarrow> Inl e | Inr a \<Rightarrow> snd n)"
  by (simp add: then_io_def snd_bind_io)

lemma isl_then_io: "isl (snd n) \<Longrightarrow> isl (snd (then_io m n))"
  by (auto simp: snd_then_io split: sum.splits)

lemma isl_bind_io_left: "isl (snd m) \<Longrightarrow> isl (snd (bind_io m f))"
  by (auto simp: snd_bind_io split: sum.splits)

subsection \<open>Missing columns\<close>

lemma transform_raises:
  assumes "\<not> set required_columns \<subseteq> set (columns raw)"
  shows "\<exists>tr e. transform w (Some raw) = (tr, Inl e) \<and>
            ((\<exists>c. e = KeyError c \<and> c \<in> set required_columns \<and> c \<notin> set (columns raw)) \<or>
             (''dob'' \<in> set (columns raw) \<and>
              derive_age (parse_datetime w) (tz_aware w (map dob (rows raw))) (clock w 0) raw
                = Inl e))"
proof (cases "''dob'' \<in> set (columns raw)")
  case False
  then show ?thesis
    by (simp add: transform_def getitem_def then_io_def bind_io_def print_def
        return_io_def raise_io_def required_columns_def)
next
  case True
  show ?thesis
  proof (cases "derive_age (parse_datetime w) (tz_aware w (map dob (rows raw))) (clock w 0) raw")
    case (Inl e)
    then show ?thesis
      using True
      by (simp add: transform_def getitem_def then_io_def bind_io_def print_def return_io_def
          raise_io_def datetime_now_def external_def)
  next
    case (Inr aged)
    have iff: "\<And>k. k \<noteq> ''age'' \<Longrightarrow> k \<in> set (columns aged) \<longleftrightarrow> k \<in> set (columns raw)"
      using derive_age_Inr(2) [OF Inr] by (rule columns_aged_iff)
    consider (dep) "''department'' \<notin> set (columns raw)"
      | (bil) "''department'' \<in> set (columns raw)" "''billing_amount'' \<notin> set (columns raw)"
      | (pid) "''department'' \<in> set (columns raw)" "''billing_amount'' \<in> set (columns raw)"
          "''patient_id'' \<notin> set (columns raw)"
      using assms True by (auto simp: required_columns_def)
    then show ?thesis
    proof cases
      case dep
      then show ?thesis
        using True Inr
        by (simp add: transform_def getitem_def then_io_def bind_io_def print_def return_io_def
            raise_io_def datetime_now_def external_def iff required_columns_def)
    next
      case bil
      then show ?thesis
        using True Inr
        by (simp add: transform_def getitem_def then_io_def bind_io_def print_def return_io_def
            raise_io_def datetime_now_def external_def iff required_columns_def)
    next
      case pid
      then show ?thesis
        using True Inr
        by (simp add: transform_def getitem_def then_io_def bind_io_def print_def return_io_def
            raise_io_def datetime_now_def external_def iff required_columns_def Let_def
            columns_impute_billing)
    qed
  qed
qed

subsection \<open>The extractor, source by source\<close>

lemma extract_local_csv_cases:
  "extract_local_csv w cfg =
     (case read_csv w (local_patient_data_path cfg) of
        Inr df \<Rightarrow>
          ([ReadCsv (local_patient_data_path cfg),
            Print (''Successfully extracted patient data from local file: ''
                   @ local_patient_data_path cfg)], Inr (Some df))
      | Inl e \<Rightarrow>
          ([ReadCsv (local_patient_data_path cfg),
            Print (case e of
                     FileNotFoundError _ \<Rightarrow>
                       ''Error: Local file not found at '' @ local_patient_data_path cfg
                       @ ''. Please ensure the file exists.''
                   | _ \<Rightarrow> ''Error reading local file '' @ local_patient_data_path cfg
                       @ '': '' @ exn_str e)], Inr None))"
  by (auto simp: extract_local_csv_def Let_def try_except_def bind_io_def then_io_def
      external_def print_def return_io_def split: sum.splits exn.splits)

lemma extract_csv_cases:
  "extract_csv w cfg =
     (case read_csv w (patient_data_url cfg) of
        Inr df \<Rightarrow>
          ([ReadCsv (patient_data_url cfg),
            Print ''Successfully extracted patient data from CSV URL.''], Inr (Some df))
      | Inl e \<Rightarrow>
          ([ReadCsv (patient_data_url cfg),
            Print (''Error extracting data from '' @ patient_data_url cfg @ '': '' @ exn_str e)],
           Inr None))"
  by (auto simp: extract_csv_def Let_def try_except_def bind_io_def then_io_def
      external_def print_def return_io_def split: sum.splits)

lemma extract_api_result:
  "\<exists>tr. extract_api w cfg =
     (case api_outcome w (api_url cfg) of
        Inr df \<Rightarrow>
          (tr @ [Print (''Successfully extracted patient data from API: '' @ api_url cfg)],
           Inr (Some df))
      | Inl e \<Rightarrow>
          (tr @ [Print (''Error extracting data from API '' @ api_url cfg @ '': '' @ exn_str e)],
           Inr None))
     \<and> (\<forall>ev \<in> set tr. \<not> is_persistence ev)"
  by (auto simp: extract_api_def api_outcome_def Let_def try_except_def bind_io_def then_io_def
      external_def print_def return_io_def split: sum.splits)

lemma then_print: "then_io (print s) m = (Print s # fst m, snd m)"
  by (cases m) (auto simp: then_io_def bind_io_def print_def split: sum.splits)

lemma extract_unfold:
  "extract w cfg =
     (attempting cfg #
        fst (if source cfg = ''local_csv'' then extract_local_csv w cfg
             else if source cfg = ''csv'' then extract_csv w cfg
             else if source cfg = ''api'' then extract_api w cfg
             else return_io None),
      snd (if source cfg = ''local_csv'' then extract_local_csv w cfg
           else if source cfg = ''csv'' then extract_csv w cfg
           else if source cfg = ''api'' then extract_api w cfg
           else return_io None))"
  by (simp add: extract_def then_print attempting_def)

lemma diagnostic_local:
  "take 5 (case e of
             FileNotFoundError x \<Rightarrow> ''Error: Local file not found at '' @ p
                                   @ ''. Please ensure the file exists.''
           | _ \<Rightarrow> ''Error reading local file '' @ p @ '': '' @ exn_str e) = ''Error''"
  by (cases e) simp_all

lemma extract_result:
  "\<exists>tr. extract w cfg =
     (case extraction_outcome w cfg of
        None \<Rightarrow> ([attempting cfg], Inr None)
      | Some (Inr df) \<Rightarrow> (tr, Inr (Some df))
      | Some (Inl e) \<Rightarrow> (tr, Inr None))
     \<and> filter is_persistence tr = []
     \<and> (\<forall>e. extraction_outcome w cfg = Some (Inl e) \<longrightarrow>
           (\<exists>m. last tr = Print m \<and> take 5 m = ''Error''))"
proof -
  consider (local) "source cfg = ''local_csv''"
    | (csv) "source cfg \<noteq> ''local_csv''" "source cfg = ''csv''"
    | (api) "source cfg \<noteq> ''local_csv''" "source cfg \<noteq> ''csv''" "source cfg = ''api''"
    | (other) "source cfg \<noteq> ''local_csv''" "source cfg \<noteq> ''csv''" "source cfg \<noteq> ''api''"
    by blast
  then show ?thesis
  proof cases
    case local
    show ?thesis
      by (cases "read_csv w (local_patient_data_path cfg)")
        (simp_all add: extract_unfold extract_local_csv_cases extraction_outcome_def local
          attempting_def diagnostic_local del: take_Cons_numeral)
  next
    case csv
    show ?thesis
      by (cases "read_csv w (patient_data_url cfg)")
        (simp_all add: extract_unfold extract_csv_cases extraction_outcome_def csv
          attempting_def)
  next
    case api
    obtain tr where tr: "extract_api w cfg =
     (case api_outcome w (api_url cfg) of
        Inr df \<Rightarrow>
          (tr @ [Print (''Successfully extracted patient data from API: '' @ api_url cfg)],
           Inr (Some df))
      | Inl e \<Rightarrow>
          (tr @ [Print (''Error extracting data from API '' @ api_url cfg @ '': '' @ exn_str e)],
           Inr None))" and np: "\<forall>ev \<in> set tr. \<not> is_persistence ev"
      using extract_api_result [of w cfg] by blast
    have f: "filter is_persistence tr = []"
      using np by (simp add: filter_empty_conv)
    show ?thesis
      by (cases "api_outcome w (api_url cfg)")
        (simp_all add: extract_unfold tr extraction_outcome_def api attempting_def f)
  next
    case other
    then show ?thesis
      by (intro exI [of _ "[]"]) (simp add: extract_unfold extraction_outcome_def return_io_def)
  qed
qed

lemma extract_events: "filter is_persistence (fst (extract w cfg)) = []"
proof -
  obtain tr where r: "extract w cfg =
     (case extraction_outcome w cfg of
        None \<Rightarrow> ([attempting cfg], Inr None)
      | Some (Inr df) \<Rightarrow> (tr, Inr (Some df))
      | Some (Inl e) \<Rightarrow> (tr, Inr None))"
    and f: "filter is_persistence tr = []"
    using extract_result [of w cfg] by blast
  show ?thesis
  proof (cases "extraction_outcome w cfg")
    case None
    then show ?thesis using r by (simp add: attempting_def)
  next
    case (Some out)
    then show ?thesis using r f by (cases out) simp_all
  qed
qed

lemma setup_directories_events:
  "filter is_persistence (fst (setup_directories w cfg)) = []"
  by (auto simp: setup_directories_def then_io_def bind_io_def call_def external_def print_def
      split: option.splits)

subsection \<open>The examples, evaluated\<close>

lemma example_run:
  "transform example_env (Some example_frame)
     = (transform_events, Inr (Some example_clean, Some example_summary))"
  by code_simp

lemma ward_run:
  "transform example_env (Some ward_frame)
     = (transform_events, Inr (Some ward_clean, Some ward_summary))"
  by code_simp

lemma pair_run:
  "transform example_env (Some pair_frame)
     = (transform_events, Inr (Some pair_clean, Some pair_summary))"
  by code_simp

lemma future_run:
  "transform example_env (Some future_frame)
     = (transform_events, Inr (Some future_clean, Some future_summary))"
  by code_simp

lemma anonymous_run:
  "transform example_env (Some anonymous_frame)
     = (transform_events, Inr (Some anonymous_clean, Some anonymous_summary))"
  by code_simp

section \<open>Claims about the transform stage\<close>

text \<open>
  C1, as the code has it. When the transform stage returns, a row of department \<open>d\<close> whose
  billing amount was missing holds what \<^verbatim>\<open>Series.mean()\<close> computes in float64 from the
  billing column of \<open>d\<close> in the raw dataset (so from the values before any fill), passed
  through numpy's \<^verbatim>\<open>round(2)\<close>, when \<open>d\<close> has at least one amount; when every billing
  amount of \<open>d\<close> was missing, the cell stays missing. The derived dataset has as many rows
  as the raw one and the row keeps its department.
\<close>

theorem transform_fills_missing_billing:
  assumes "transform w (Some raw) = (tr, Inr (Some clean, Some summ))"
      and "i < length (rows raw)"
      and "department (rows raw ! i) = Some d"
      and "billing_amount (rows raw ! i) = None"
  shows "length (rows clean) = length (rows raw) \<and>
         department (rows clean ! i) = Some d \<and>
         billing_amount (rows clean ! i) =
           (if known_values (rows raw) d = [] then None
            else map_option (np_round w) (np_mean w (billing_of (rows raw) d)))"
proof -
  obtain aged where
    a: "derive_age (parse_datetime w) (tz_aware w (map dob (rows raw))) (clock w 0) raw = Inr aged"
    and c: "clean = impute_billing w aged"
    using transform_Some_Inr [OF assms(1)] by auto
  note l = derive_age_Inr(3) [OF a]
  have len: "i < length (rows aged)" using assms(2) l by simp
  have row: "rows aged ! i =
      with_age (rows raw ! i) (parsed_dob (parse_datetime w) (rows raw) i)
        (map_option (\<lambda>t. clock w 0 - t) (parsed_dob (parse_datetime w) (rows raw) i))"
    using assms(2) by (rule derive_age_Inr(4) [OF a])
  have dep: "department (rows aged ! i) = Some d"
    and bil: "billing_amount (rows aged ! i) = None"
    using assms(3,4) by (simp_all add: row with_age_def)
  have "groupby_transform w (rows aged) ! i = series_mean w (group_column (rows aged) d)"
    using len dep bil by (simp add: groupby_transform_nth)
  then have "billing_amount (rows clean ! i) =
      (if known_values (rows raw) d = [] then None
       else map_option (np_round w) (np_mean w (billing_of (rows raw) d)))"
    using len
    by (simp add: c billing_impute_nth series_mean_group known_values_derive_age [OF a]
        billing_of_derive_age [OF a])
  moreover have "department (rows clean ! i) = Some d"
    using len dep by (simp add: c rows_impute_billing_nth set_billing_def)
  moreover have "length (rows clean) = length (rows raw)"
    by (simp add: c length_rows_impute_billing l)
  ultimately show ?thesis by blast
qed

theorem transform_fills_missing_billing_witness:
  "transform example_env (Some ward_frame)
     = (transform_events, Inr (Some ward_clean, Some ward_summary)) \<and>
   3 < length (rows ward_frame) \<and>
   department (rows ward_frame ! 3) = Some ''ER'' \<and>
   billing_amount (rows ward_frame ! 3) = None \<and>
   known_values (rows ward_frame) ''ER'' = [1, 2, 2] \<and>
   billing_amount (rows ward_clean ! 3) = Some (fl64 (167 / 100)) \<and>
   4 < length (rows ward_frame) \<and>
   department (rows ward_frame ! 4) = Some ''ICU'' \<and>
   billing_amount (rows ward_frame ! 4) = None \<and>
   known_values (rows ward_frame) ''ICU'' = [] \<and>
   billing_amount (rows ward_clean ! 4) = None"
proof -
  have h2: "3 < length (rows ward_frame)" by code_simp
  have h3: "department (rows ward_frame ! 3) = Some ''ER''" by code_simp
  have h4: "billing_amount (rows ward_frame ! 3) = None" by code_simp
  have v: "known_values (rows ward_frame) ''ER'' = [1, 2, 2]" by code_simp
  have r: "map_option (np_round example_env) (np_mean example_env (billing_of (rows ward_frame) ''ER''))
             = Some (fl64 (167 / 100))" by code_simp
  have g2: "4 < length (rows ward_frame)" by code_simp
  have g3: "department (rows ward_frame ! 4) = Some ''ICU''" by code_simp
  have g4: "billing_amount (rows ward_frame ! 4) = None" by code_simp
  have u: "known_values (rows ward_frame) ''ICU'' = []" by code_simp
  have er: "billing_amount (rows ward_clean ! 3) = Some (fl64 (167 / 100))"
    using transform_fills_missing_billing [OF ward_run h2 h3 h4] v r by simp
  have icu: "billing_amount (rows ward_clean ! 4) = None"
    using transform_fills_missing_billing [OF ward_run g2 g3 g4] u by simp
  show ?thesis
    by (intro conjI ward_run h2 h3 h4 v er g2 g3 g4 u icu)
qed

text \<open>
  C1, as the specification states it (the cell holds the arithmetic mean rounded to two
  decimals), fails in float64. A department has the amounts 1.25 and 1.26 and a missing
  one. The float64 mean of the two is just below 1.255 and its product with 100 is
  125.49999999999999, so the cell gets 1.25. The mean of the stored values is just above
  1.255: the nearest hundredth is 1.26, and 1.25 is farther from it than half a
  hundredth. The mean of the amounts as written, 1.255, is a tie that goes to 1.26 both
  to even and away from zero.
\<close>

theorem rounded_mean_counterexample:
  "map billing_amount (rows (the (clean_of (transform example_env (Some cents_frame)))))
     = [Some (5 / 4), Some (5674535530486825 / 4503599627370496), Some (5 / 4)] \<and>
   department (rows cents_frame ! 2) = Some ''ER'' \<and>
   billing_amount (rows cents_frame ! 2) = None \<and>
   known_values (rows cents_frame) ''ER'' = [5 / 4, 5674535530486825 / 4503599627370496] \<and>
   arithmetic_mean (known_values (rows cents_frame) ''ER'')
     = 11304035064699945 / 9007199254740992 \<and>
   \<bar>126 / 100 - 11304035064699945 / 9007199254740992 :: rat\<bar> < 1 / 200 \<and>
   1 / 200 < \<bar>5 / 4 - 11304035064699945 / 9007199254740992 :: rat\<bar> \<and>
   arithmetic_mean [125 / 100, 126 / 100] = 1255 / 1000 \<and>
   rint (1255 / 1000 * 100) = 126 \<and>
   \<lfloor>1255 / 1000 * 100 + 1 / 2 :: rat\<rfloor> = 126"
  by code_simp

text \<open>
  C2, as the code has it. When the transform stage returns, it has read the clock exactly
  once, the parsed column of dates is timezone-naive, and every row's age is computed
  against that one reading, whatever later readings would show. For a row whose date of
  birth is missing, unparseable or out of range the age is 0. For a row with a valid date
  of birth the age is the number of whole days from the date of birth to the reading,
  divided by 365.25, with the fractional part dropped: this is the floor when the date of
  birth is not after the reading, and the ceiling when it is.
\<close>

theorem transform_age:
  assumes "transform w (Some raw) = (tr, Inr (Some clean, Some summ))"
      and "i < length (rows raw)"
  shows "count_list tr DatetimeNow = 1 \<and>
         \<not> tz_aware w (map dob (rows raw)) \<and>
         age (rows clean ! i) =
           (case parsed_dob (parse_datetime w) (rows raw) i of
              None \<Rightarrow> 0
            | Some t \<Rightarrow>
                if t \<le> clock w 0
                then \<lfloor>(of_int ((clock w 0 - t) div ns_per_day) :: rat) / 365.25\<rfloor>
                else \<lceil>(of_int ((clock w 0 - t) div ns_per_day) :: rat) / 365.25\<rceil>)"
proof -
  obtain aged where
    a: "derive_age (parse_datetime w) (tz_aware w (map dob (rows raw))) (clock w 0) raw = Inr aged"
    and c: "clean = impute_billing w aged"
    and t: "tr = transform_events"
    using transform_Some_Inr [OF assms(1)] by auto
  have len: "i < length (rows aged)"
    using assms(2) derive_age_Inr(3) [OF a] by simp
  have "age (rows clean ! i) = age (rows aged ! i)"
    using len by (simp add: c rows_impute_billing_nth set_billing_def)
  also have "\<dots> = age_of (map_option (\<lambda>t. clock w 0 - t)
                        (parsed_dob (parse_datetime w) (rows raw) i))"
    using assms(2) by (simp add: derive_age_Inr(4) [OF a] with_age_def)
  finally have "age (rows clean ! i) =
           (case parsed_dob (parse_datetime w) (rows raw) i of
              None \<Rightarrow> 0
            | Some t \<Rightarrow>
                if t \<le> clock w 0
                then \<lfloor>(of_int ((clock w 0 - t) div ns_per_day) :: rat) / 365.25\<rfloor>
                else \<lceil>(of_int ((clock w 0 - t) div ns_per_day) :: rat) / 365.25\<rceil>)"
    by (simp only: age_of_cases)
  moreover have "count_list tr DatetimeNow = 1"
    by (simp add: t transform_events_def)
  moreover have "\<not> tz_aware w (map dob (rows raw))"
    by (rule derive_age_Inr(1) [OF a])
  ultimately show ?thesis by blast
qed

theorem transform_age_witness:
  "transform example_env (Some example_frame)
     = (transform_events, Inr (Some example_clean, Some example_summary)) \<and>
   0 < length (rows example_frame) \<and>
   parsed_dob (parse_datetime example_env) (rows example_frame) 0
     = Some (946684800 * 1000000000) \<and>
   age (rows example_clean ! 0) = 24 \<and>
   count_list transform_events DatetimeNow = 1 \<and>
   \<not> tz_aware example_env (map dob (rows example_frame)) \<and>
   1 < length (rows example_frame) \<and>
   parsed_dob (parse_datetime example_env) (rows example_frame) 1 = None \<and>
   age (rows example_clean ! 1) = 0 \<and>
   transform example_env (Some future_frame)
     = (transform_events, Inr (Some future_clean, Some future_summary)) \<and>
   0 < length (rows future_frame) \<and>
   parsed_dob (parse_datetime example_env) (rows future_frame) 0
     = Some (1893456000 * 1000000000) \<and>
   age (rows future_clean ! 0) = - 6 \<and>
   clock example_env 1 \<noteq> clock example_env 0"
proof -
  have h2: "0 < length (rows example_frame)" by code_simp
  have d0: "parsed_dob (parse_datetime example_env) (rows example_frame) 0
              = Some (946684800 * 1000000000)" by code_simp
  have le: "(946684800 * 1000000000 :: int) \<le> clock example_env 0" by code_simp
  have a0: "\<lfloor>(of_int ((clock example_env 0 - 946684800 * 1000000000) div ns_per_day) :: rat)
              / 365.25\<rfloor> = 24"
    by code_simp
  have g2: "1 < length (rows example_frame)" by code_simp
  have d1: "parsed_dob (parse_datetime example_env) (rows example_frame) 1 = None" by code_simp
  have f2: "0 < length (rows future_frame)" by code_simp
  have f0: "parsed_dob (parse_datetime example_env) (rows future_frame) 0
              = Some (1893456000 * 1000000000)" by code_simp
  have gt: "\<not> (1893456000 * 1000000000 :: int) \<le> clock example_env 0" by code_simp
  have c0: "\<lceil>(of_int ((clock example_env 0 - 1893456000 * 1000000000) div ns_per_day) :: rat)
              / 365.25\<rceil> = - 6"
    by code_simp
  have ticks: "clock example_env 1 \<noteq> clock example_env 0" by code_simp
  note born = transform_age [OF example_run h2]
  have b1: "age (rows example_clean ! 0) = 24"
    using born d0 le a0 by simp
  have b2: "count_list transform_events DatetimeNow = 1"
    using born by (rule conjunct1)
  have b3: "\<not> tz_aware example_env (map dob (rows example_frame))"
    using born by blast
  have unknown: "age (rows example_clean ! 1) = 0"
    using transform_age [OF example_run g2] d1 by simp
  have unborn: "age (rows future_clean ! 0) = - 6"
    using transform_age [OF future_run f2] f0 gt c0 by simp
  show ?thesis
    by (intro conjI example_run h2 d0 b1 b2 b3 g2 d1 unknown future_run f2 f0 unborn ticks)
qed

text \<open>
  C2, as the specification states it, fails twice. A patient recorded as born on
  2030-01-01, in a run at 2024-01-01, is 2192 days short of being born; the floor of
  -2192 / 365.25 is -7 and the stage stores -6. And where the parser returns
  timezone-aware dates, the row with the parseable date 2000-01-01 gets no age at all:
  the subtraction raises \<^verbatim>\<open>TypeError\<close> and the stage ends after reading the clock.
\<close>

theorem transform_age_floor_counterexample:
  "transform example_env (Some future_frame)
     = (transform_events, Inr (Some future_clean, Some future_summary)) \<and>
   parsed_dob (parse_datetime example_env) (rows future_frame) 0
     = Some (1893456000 * 1000000000) \<and>
   age (rows future_clean ! 0) = - 6 \<and>
   (clock example_env 0 - 1893456000 * 1000000000) div ns_per_day = - 2192 \<and>
   \<lfloor>(of_int ((clock example_env 0 - 1893456000 * 1000000000) div ns_per_day) :: rat)
      / 365.25\<rfloor> = - 7 \<and>
   \<lfloor>(of_int (clock example_env 0 - 1893456000 * 1000000000) / of_int ns_per_day :: rat)
      / 365.25\<rfloor> = - 7 \<and>
   parsed_dob (parse_datetime aware_env) (rows example_frame) 0
     = Some (946684800 * 1000000000) \<and>
   transform aware_env (Some example_frame)
     = ([Print ''Starting data transformation...'', DatetimeNow], Inl TypeError)"
  by code_simp

text \<open>
  C3, as the code has it. When the transform stage returns, the summary has exactly one
  row for a department \<open>d\<close> of the derived dataset. Its \<open>total_revenue\<close> is what the grouped
  float64 sum computes from the billing column of \<open>d\<close> in the derived dataset, and 0.0
  when no amount of \<open>d\<close> is present; its \<open>average_billing\<close> is what the grouped float64
  mean computes from that column, passed through numpy's \<^verbatim>\<open>round(2)\<close>, and is missing when
  no amount of \<open>d\<close> is present.
\<close>

theorem summary_revenue_and_average:
  assumes "transform w (Some raw) = (tr, Inr (Some clean, Some summ))"
      and "Some d \<in> set (map department (rows clean))"
  shows "\<exists>s. filter (\<lambda>s. department_key s = d) (rows summ) = [s] \<and>
           total_revenue s =
             (if known_values (rows clean) d = [] then Some (zero w)
              else group_sum w (billing_of (rows clean) d)) \<and>
           average_billing s =
             (if known_values (rows clean) d = [] then None
              else map_option (np_round w) (group_mean w (billing_of (rows clean) d)))"
proof -
  obtain aged where
    c: "clean = impute_billing w aged"
    and s: "summ = department_summary w (impute_billing w aged)"
    using transform_Some_Inr [OF assms(1)] by auto
  have one: "filter (\<lambda>s. department_key s = d) (rows summ) = [agg_group w (rows clean) d]"
    using assms(2) unfolding s c by (rule summary_row_of_department)
  show ?thesis
    using one total_revenue_agg [of w "rows clean" d] average_billing_agg [of w "rows clean" d]
    by blast
qed

theorem summary_revenue_and_average_witness:
  "transform example_env (Some ward_frame)
     = (transform_events, Inr (Some ward_clean, Some ward_summary)) \<and>
   Some ''ER'' \<in> set (map department (rows ward_clean)) \<and>
   known_values (rows ward_clean) ''ER'' = [1, 2, 2, fl64 (167 / 100)] \<and>
   (\<exists>s. filter (\<lambda>s. department_key s = ''ER'') (rows ward_summary) = [s] \<and>
      total_revenue s = Some (fl64 (667 / 100)) \<and>
      average_billing s = Some (fl64 (167 / 100))) \<and>
   Some ''ICU'' \<in> set (map department (rows ward_clean)) \<and>
   known_values (rows ward_clean) ''ICU'' = [] \<and>
   (\<exists>s. filter (\<lambda>s. department_key s = ''ICU'') (rows ward_summary) = [s] \<and>
      total_revenue s = Some 0 \<and> average_billing s = None)"
proof -
  have h2: "Some ''ER'' \<in> set (map department (rows ward_clean))" by code_simp
  have g2: "Some ''ICU'' \<in> set (map department (rows ward_clean))" by code_simp
  have v: "known_values (rows ward_clean) ''ER'' = [1, 2, 2, fl64 (167 / 100)]" by code_simp
  have u: "known_values (rows ward_clean) ''ICU'' = []" by code_simp
  have er_sum: "group_sum example_env (billing_of (rows ward_clean) ''ER'')
                  = Some (fl64 (667 / 100))" by code_simp
  have er_avg: "map_option (np_round example_env)
                  (group_mean example_env (billing_of (rows ward_clean) ''ER''))
                  = Some (fl64 (167 / 100))" by code_simp
  have z: "zero example_env = 0" by code_simp
  have er: "\<exists>s. filter (\<lambda>s. department_key s = ''ER'') (rows ward_summary) = [s] \<and>
      total_revenue s = Some (fl64 (667 / 100)) \<and>
      average_billing s = Some (fl64 (167 / 100))"
    using summary_revenue_and_average [OF ward_run h2] v er_sum er_avg by simp
  have icu: "\<exists>s. filter (\<lambda>s. department_key s = ''ICU'') (rows ward_summary) = [s] \<and>
      total_revenue s = Some 0 \<and> average_billing s = None"
    using summary_revenue_and_average [OF ward_run g2] u z by simp
  show ?thesis
    by (intro conjI ward_run h2 v er g2 u icu)
qed

text \<open>
  C3, as the specification states it, fails in float64. For a department with the two
  amounts 1.25 and 1.26 the summary holds the float64 nearest to 2.51 as
  \<open>total_revenue\<close>, which is not the sum of the two stored values, and 1.25 as
  \<open>average_billing\<close>, where the mean of the two values is nearest to 1.26 (as a mean of the
  stored values, and as the tie 1.255 of the amounts as written).
\<close>

theorem summary_float_counterexample:
  "transform example_env (Some pair_frame)
     = (transform_events, Inr (Some pair_clean, Some pair_summary)) \<and>
   rows pair_summary =
     [\<lparr>department_key = ''ICU'', number_of_patients = 2,
       total_revenue = Some (1413004383087493 / 562949953421312),
       average_billing = Some (5 / 4)\<rparr>] \<and>
   known_values (rows pair_clean) ''ICU'' = [5 / 4, 5674535530486825 / 4503599627370496] \<and>
   sum_list (known_values (rows pair_clean) ''ICU'')
     = 11304035064699945 / 4503599627370496 \<and>
   (11304035064699945 / 4503599627370496 :: rat) \<noteq> 1413004383087493 / 562949953421312 \<and>
   arithmetic_mean (known_values (rows pair_clean) ''ICU'')
     = 11304035064699945 / 9007199254740992 \<and>
   \<bar>126 / 100 - 11304035064699945 / 9007199254740992 :: rat\<bar> < 1 / 200 \<and>
   1 / 200 < \<bar>5 / 4 - 11304035064699945 / 9007199254740992 :: rat\<bar> \<and>
   arithmetic_mean [125 / 100, 126 / 100] = 1255 / 1000 \<and>
   rint (1255 / 1000 * 100) = 126 \<and>
   \<lfloor>1255 / 1000 * 100 + 1 / 2 :: rat\<rfloor> = 126"
  by code_simp

text \<open>
  C4, as the code has it. When the transform stage returns, \<open>number_of_patients\<close> of a
  department \<open>d\<close> of the derived dataset is the number of rows of \<open>d\<close> in the derived
  dataset whose \<open>patient_id\<close> is not missing, whatever their billing amounts: the number
  of rows of \<open>d\<close> less those without a \<open>patient_id\<close>.
\<close>

theorem summary_counts_patient_ids:
  assumes "transform w (Some raw) = (tr, Inr (Some clean, Some summ))"
      and "Some d \<in> set (map department (rows clean))"
  shows "\<exists>s. filter (\<lambda>s. department_key s = d) (rows summ) = [s] \<and>
           number_of_patients s =
             length (filter (\<lambda>r. patient_id r \<noteq> None) (rows_of (rows clean) d)) \<and>
           number_of_patients s
             + length (filter (\<lambda>r. patient_id r = None) (rows_of (rows clean) d))
             = length (rows_of (rows clean) d)"
proof -
  obtain aged where
    c: "clean = impute_billing w aged"
    and s: "summ = department_summary w (impute_billing w aged)"
    using transform_Some_Inr [OF assms(1)] by auto
  have one: "filter (\<lambda>s. department_key s = d) (rows summ) = [agg_group w (rows clean) d]"
    using assms(2) unfolding s c by (rule summary_row_of_department)
  have cnt: "number_of_patients (agg_group w (rows clean) d) =
      length (filter (\<lambda>r. patient_id r \<noteq> None) (rows_of (rows clean) d))"
    by (rule number_of_patients_agg)
  have split: "length (filter (\<lambda>r. patient_id r \<noteq> None) (rows_of (rows clean) d))
      + length (filter (\<lambda>r. patient_id r = None) (rows_of (rows clean) d))
      = length (rows_of (rows clean) d)"
    using sum_length_filter_compl [of "\<lambda>r. patient_id r \<noteq> None" "rows_of (rows clean) d"]
    by simp
  show ?thesis
    using one cnt split by (metis (no_types, lifting))
qed

theorem summary_counts_patient_ids_witness:
  "transform example_env (Some example_frame)
     = (transform_events, Inr (Some example_clean, Some example_summary)) \<and>
   Some ''ER'' \<in> set (map department (rows example_clean)) \<and>
   (\<exists>s. filter (\<lambda>s. department_key s = ''ER'') (rows example_summary) = [s] \<and>
      number_of_patients s = 2) \<and>
   length (rows_of (rows example_clean) ''ER'') = 2 \<and>
   transform example_env (Some anonymous_frame)
     = (transform_events, Inr (Some anonymous_clean, Some anonymous_summary)) \<and>
   Some ''ER'' \<in> set (map department (rows anonymous_clean)) \<and>
   (\<exists>s. filter (\<lambda>s. department_key s = ''ER'') (rows anonymous_summary) = [s] \<and>
      number_of_patients s + 1 = length (rows_of (rows anonymous_clean) ''ER''))"
proof -
  have h2: "Some ''ER'' \<in> set (map department (rows example_clean))" by code_simp
  have g2: "Some ''ER'' \<in> set (map department (rows anonymous_clean))" by code_simp
  have n: "length (filter (\<lambda>r. patient_id r \<noteq> None) (rows_of (rows example_clean) ''ER'')) = 2"
    by code_simp
  have l: "length (rows_of (rows example_clean) ''ER'') = 2" by code_simp
  have m: "length (filter (\<lambda>r. patient_id r = None) (rows_of (rows anonymous_clean) ''ER'')) = 1"
    by code_simp
  have er: "\<exists>s. filter (\<lambda>s. department_key s = ''ER'') (rows example_summary) = [s] \<and>
      number_of_patients s = 2"
    using summary_counts_patient_ids [OF example_run h2] n by auto
  have anon: "\<exists>s. filter (\<lambda>s. department_key s = ''ER'') (rows anonymous_summary) = [s] \<and>
      number_of_patients s + 1 = length (rows_of (rows anonymous_clean) ''ER'')"
    using summary_counts_patient_ids [OF anonymous_run g2] m by auto
  show ?thesis
    by (intro conjI example_run h2 er l anonymous_run g2 anon)
qed

text \<open>
  C4, as the specification states it (\<open>number_of_patients\<close> is the number of rows of the
  department), fails for a row without \<open>patient_id\<close>: the department ER of the frame below
  has one row and the summary counts no patient.
\<close>

theorem summary_counts_rows_counterexample:
  "transform example_env (Some anonymous_frame)
     = (transform_events, Inr (Some anonymous_clean, Some anonymous_summary)) \<and>
   rows anonymous_summary =
     [\<lparr>department_key = ''ER'', number_of_patients = 0, total_revenue = Some 100,
       average_billing = Some 100\<rparr>] \<and>
   length (rows_of (rows anonymous_clean) ''ER'') = 1 \<and>
   map patient_id (rows_of (rows anonymous_clean) ''ER'') = [None]"
  by code_simp

text \<open>
  C5. The grouped imputation step changes nothing but billing amounts: the frame it returns
  has the same columns and as many rows, the same department in every position, and with
  the billing amounts blanked out the rows are those it received, in the same order.
\<close>

theorem impute_billing_changes_only_billing:
  "columns (impute_billing w df) = columns df \<and>
   length (rows (impute_billing w df)) = length (rows df) \<and>
   map department (rows (impute_billing w df)) = map department (rows df) \<and>
   map (\<lambda>r. r\<lparr>billing_amount := None\<rparr>) (rows (impute_billing w df)) =
     map (\<lambda>r. r\<lparr>billing_amount := None\<rparr>) (rows df)"
  by (simp add: columns_impute_billing length_rows_impute_billing
      map_impute_billing set_billing_def)

text \<open>
  C6. When one of the columns \<open>dob\<close>, \<open>billing_amount\<close>, \<open>department\<close>, \<open>patient_id\<close> is
  not in the dataset, the transform stage ends with an exception and returns no result:
  \<^verbatim>\<open>KeyError\<close> for a required column that is missing, unless \<open>dob\<close> is present and the age
  computation raises first; a run whose extraction delivered that dataset ends with an
  exception.
\<close>

theorem transform_missing_column_raises:
  assumes "\<not> set required_columns \<subseteq> set (columns raw)"
  shows "(\<exists>tr e. transform w (Some raw) = (tr, Inl e) \<and>
            ((\<exists>c. e = KeyError c \<and> c \<in> set required_columns \<and> c \<notin> set (columns raw)) \<or>
             (''dob'' \<in> set (columns raw) \<and>
              derive_age (parse_datetime w) (tz_aware w (map dob (rows raw))) (clock w 0) raw
                = Inl e))) \<and>
         (snd (extract w cfg) = Inr (Some raw) \<longrightarrow> (\<exists>e. snd (main w cfg) = Inl e))"
proof
  show "\<exists>tr e. transform w (Some raw) = (tr, Inl e) \<and>
            ((\<exists>c. e = KeyError c \<and> c \<in> set required_columns \<and> c \<notin> set (columns raw)) \<or>
             (''dob'' \<in> set (columns raw) \<and>
              derive_age (parse_datetime w) (tz_aware w (map dob (rows raw))) (clock w 0) raw
                = Inl e))"
    using assms by (rule transform_raises)
next
  show "snd (extract w cfg) = Inr (Some raw) \<longrightarrow> (\<exists>e. snd (main w cfg) = Inl e)"
  proof
    assume ex: "snd (extract w cfg) = Inr (Some raw)"
    have t: "isl (snd (transform w (Some raw)))"
      using transform_raises [OF assms, of w] by auto
    have "isl (snd (main w cfg))"
      unfolding main_def
      apply (rule isl_then_io)
      apply (simp add: snd_bind_io ex)
      apply (rule isl_then_io)
      apply (rule isl_then_io)
      apply (rule isl_bind_io_left)
      apply (rule t)
      done
    then show "\<exists>e. snd (main w cfg) = Inl e"
      by (cases "snd (main w cfg)") auto
  qed
qed

theorem transform_missing_column_raises_witness:
  "\<not> set required_columns \<subseteq> set (columns headless_frame) \<and>
   snd (extract headless_env example_config) = Inr (Some headless_frame) \<and>
   ''dob'' \<notin> set (columns headless_frame) \<and>
   (\<exists>tr c. transform headless_env (Some headless_frame) = (tr, Inl (KeyError c)) \<and>
      c \<in> set required_columns \<and> c \<notin> set (columns headless_frame)) \<and>
   (\<exists>e. snd (main headless_env example_config) = Inl e)"
proof -
  have h1: "\<not> set required_columns \<subseteq> set (columns headless_frame)" by code_simp
  have h2: "snd (extract headless_env example_config) = Inr (Some headless_frame)" by code_simp
  have h3: "''dob'' \<notin> set (columns headless_frame)" by code_simp
  show ?thesis
    using transform_missing_column_raises [OF h1, of headless_env example_config] h1 h2 h3
    by blast
qed

text \<open>
  C10. Called without a dataset, the transform stage does not raise: it prints one line
  and returns the pair of absent results; it causes no other event.
\<close>

theorem transform_absent:
  "transform w None =
     ([Print ''Transformation skipped as there is no data to transform.''], Inr (None, None))"
  by (simp add: transform_def then_io_def bind_io_def print_def return_io_def)

section \<open>Claims about the extractor and the orchestrator\<close>

text \<open>
  C7. The extractor never ends with an exception. When an external call of the selected
  source fails, it returns no dataset and its last action is to print a message that
  starts with \<open>Error\<close>; when the calls succeed it returns what they delivered; for a
  selector other than \<open>local_csv\<close>, \<open>csv\<close> and \<open>api\<close> it returns no dataset and does
  nothing but print its first line.
\<close>

theorem extract_never_raises:
  "\<exists>tr df. extract w cfg = (tr, Inr df) \<and>
     (\<forall>e. extraction_outcome w cfg = Some (Inl e) \<longrightarrow>
        df = None \<and> (\<exists>m. last tr = Print m \<and> take 5 m = ''Error'')) \<and>
     (\<forall>d. extraction_outcome w cfg = Some (Inr d) \<longrightarrow> df = Some d) \<and>
     (source cfg \<notin> {''local_csv'', ''csv'', ''api''} \<longrightarrow>
        df = None \<and>
        tr = [Print (''Attempting to extract data from source: '' @ [CHR 0x27] @ source cfg
                     @ [CHR 0x27])])"
proof -
  obtain tr where r: "extract w cfg =
     (case extraction_outcome w cfg of
        None \<Rightarrow> ([attempting cfg], Inr None)
      | Some (Inr df) \<Rightarrow> (tr, Inr (Some df))
      | Some (Inl e) \<Rightarrow> (tr, Inr None))"
    and d: "\<forall>e. extraction_outcome w cfg = Some (Inl e) \<longrightarrow>
           (\<exists>m. last tr = Print m \<and> take 5 m = ''Error'')"
    using extract_result [of w cfg] by blast
  have unknown: "source cfg \<notin> {''local_csv'', ''csv'', ''api''} \<Longrightarrow>
      extraction_outcome w cfg = None"
    by (simp add: extraction_outcome_def)
  show ?thesis
  proof (cases "extraction_outcome w cfg")
    case None
    then show ?thesis using r by (simp add: attempting_def)
  next
    case (Some out)
    then have known: "source cfg \<in> {''local_csv'', ''csv'', ''api''}"
      using unknown by fastforce
    show ?thesis
    proof (cases out)
      case (Inl e)
      then show ?thesis using r d Some known by simp
    next
      case (Inr df)
      then show ?thesis using r Some known by simp
    qed
  qed
qed

theorem extract_never_raises_witness:
  "extraction_outcome offline_env example_config
     = Some (Inl (FileNotFoundError ''No such file or directory'')) \<and>
   (\<exists>tr m. extract offline_env example_config = (tr, Inr None) \<and>
      last tr = Print m \<and> take 5 m = ''Error'') \<and>
   source unknown_config \<notin> {''local_csv'', ''csv'', ''api''} \<and>
   extract example_env unknown_config =
     ([Print (''Attempting to extract data from source: '' @ [CHR 0x27] @ ''xml'' @ [CHR 0x27])],
      Inr None) \<and>
   extraction_outcome example_env example_config = Some (Inr example_frame) \<and>
   (\<exists>tr. extract example_env example_config = (tr, Inr (Some example_frame)))"
proof -
  have c: "extraction_outcome example_env example_config = Some (Inr example_frame)"
    by code_simp
  have delivered: "\<exists>tr. extract example_env example_config = (tr, Inr (Some example_frame))"
    using extract_never_raises [of example_env example_config] c by auto
  have a: "extraction_outcome offline_env example_config
     = Some (Inl (FileNotFoundError ''No such file or directory''))" by code_simp
  have b: "source unknown_config \<notin> {''local_csv'', ''csv'', ''api''}" by code_simp
  have s: "source unknown_config = ''xml''" by code_simp
  have failing: "\<exists>tr m. extract offline_env example_config = (tr, Inr None) \<and>
      last tr = Print m \<and> take 5 m = ''Error''"
    using extract_never_raises [of offline_env example_config] a by auto
  have unknown: "extract example_env unknown_config =
     ([Print (''Attempting to extract data from source: '' @ [CHR 0x27] @ ''xml'' @ [CHR 0x27])],
      Inr None)"
    using extract_never_raises [of example_env unknown_config] b s by auto
  show ?thesis using a b failing unknown c delivered by blast
qed

text \<open>
  C8. When extraction yields no dataset, the run contains no persistence action (no
  snapshot file written, no call of a loader): after the directories are set up and the
  extractor has run, it prints that it halts and returns.
\<close>

theorem main_halts_without_data:
  assumes "snd (extract w cfg) = Inr None"
  shows "filter is_persistence (fst (main w cfg)) = [] \<and>
         main w cfg =
           (case snd (setup_directories w cfg) of
              Inl e \<Rightarrow> (fst (setup_directories w cfg), Inl e)
            | Inr _ \<Rightarrow>
                (fst (setup_directories w cfg) @ fst (extract w cfg)
                   @ [Print ''ETL process halted due to extraction failure.''],
                 Inr ()))"
proof -
  have ev: "filter is_persistence (fst (extract w cfg)) = []"
    by (rule extract_events)
  have m: "main w cfg =
           (case snd (setup_directories w cfg) of
              Inl e \<Rightarrow> (fst (setup_directories w cfg), Inl e)
            | Inr _ \<Rightarrow>
                (fst (setup_directories w cfg) @ fst (extract w cfg)
                   @ [Print ''ETL process halted due to extraction failure.''],
                 Inr ()))"
    using assms
    by (cases "setup_directories w cfg"; cases "extract w cfg")
      (auto simp: main_def then_io_def bind_io_def print_def split: sum.splits)
  show ?thesis
    using m ev setup_directories_events [of w cfg]
    by (auto split: sum.splits)
qed

theorem main_halts_without_data_witness:
  "snd (extract offline_env example_config) = Inr None \<and>
   snd (setup_directories offline_env example_config) = Inr () \<and>
   filter is_persistence (fst (main offline_env example_config)) = [] \<and>
   main offline_env example_config =
     (fst (setup_directories offline_env example_config)
        @ fst (extract offline_env example_config)
        @ [Print ''ETL process halted due to extraction failure.''],
      Inr ())"
proof -
  have h: "snd (extract offline_env example_config) = Inr None" by code_simp
  have s: "snd (setup_directories offline_env example_config) = Inr ()" by code_simp
  note r = main_halts_without_data [OF h]
  have p: "filter is_persistence (fst (main offline_env example_config)) = []"
    using r by (rule conjunct1)
  have m: "main offline_env example_config =
     (fst (setup_directories offline_env example_config)
        @ fst (extract offline_env example_config)
        @ [Print ''ETL process halted due to extraction failure.''],
      Inr ())"
    using conjunct2 [OF r] by (simp only: s sum.case)
  show ?thesis by (intro conjI h s p m)
qed

end
